theory Spec2Isabelle
  imports Main
begin

section \<open>Data model\<close>

text \<open>
  A JavaScript string whose characters beyond ASCII matter (the title, which the form
  trims) is the list of its UTF-16 code units. The other strings are only compared and
  searched for ASCII text and are byte strings.
\<close>

type_synonym js_string = "nat list"

text \<open>
  One row of the table \<open>quiet_blocks\<close>. Identifiers (UUIDs in the database) are natural
  numbers; \<open>start_time\<close> and \<open>end_time\<close> are instants, in milliseconds since the epoch, which
  is what the comparison of two JavaScript \<open>Date\<close> objects and \<open>getTime()\<close> read.
\<close>

record block =
  block_id :: nat
  user_id :: nat
  title :: js_string
  start_time :: int
  end_time :: int
  is_active :: bool
  reminder_sent :: bool

text \<open>The two columns of \<open>profiles\<close> that the cron route selects; both may be null.\<close>

record profile =
  email :: "string option"
  full_name :: "string option"

text \<open>\<open>process.env\<close>: a variable that is not set is \<open>None\<close>.\<close>

record process_env =
  CRON_SECRET :: "string option"
  NODE_ENV :: "string option"
  GMAIL_USER :: "string option"
  GMAIL_APP_PASSWORD :: "string option"

text \<open>The two request headers the route reads; \<open>headers.get\<close> gives null for a missing one.\<close>

record request =
  authorization :: "string option"
  user_agent :: "string option"

text \<open>
  The answers of the external collaborators during one invocation of the route: whether the
  candidate query and the bulk update report an error, what the profile query returns for a
  user (its \<open>error\<close> and its \<open>data\<close>), whether \<open>transporter.sendMail\<close> resolves for a
  message (recipient, user name, block), and whether the update of \<open>reminder_sent\<close> for a
  block id reports an error.
\<close>

record services =
  fetchError :: bool
  expireUpdateError :: bool
  profiles :: "nat \<Rightarrow> bool \<times> profile option"
  sendMail :: "string \<Rightarrow> string \<Rightarrow> block \<Rightarrow> bool"
  markUpdateError :: "nat \<Rightarrow> bool"

text \<open>JSON payloads of the responses; \<open>JDate\<close> stands for the ISO string of an instant.\<close>

datatype json =
    JString string
  | JNumber int
  | JDate int
  | JObject "(string \<times> json) list"

record response =
  status :: nat
  body :: "(string \<times> json) list"

text \<open>
  The calls the route makes that change something outside it, in the order it makes them:
  the bulk update of \<open>is_active\<close> (with the ids and whether it succeeded), the profile query
  made for a block (block id, user id), the call of \<open>sendReminderEmail\<close> for a block (block id, recipient, user name,
  whether it returned rather than threw), and the update of \<open>reminder_sent\<close> for a block id
  (and whether it succeeded).
\<close>

datatype effect =
    UpdateInactive "nat list" bool
  | ProfileQuery nat nat
  | SendEmail nat string string bool
  | UpdateReminderSent nat bool

section \<open>JavaScript helpers\<close>

text \<open>Truthiness of a value that is a string, null or undefined.\<close>

definition truthy :: "string option \<Rightarrow> bool" where
  "truthy s = (case s of None \<Rightarrow> False | Some v \<Rightarrow> v \<noteq> [])"

fun starts_with :: "string \<Rightarrow> string \<Rightarrow> bool" where
  "starts_with s [] = True"
| "starts_with [] (c # cs) = False"
| "starts_with (x # xs) (c # cs) = (x = c \<and> starts_with xs cs)"

text \<open>\<open>String.prototype.includes\<close>.\<close>

fun includes_str :: "string \<Rightarrow> string \<Rightarrow> bool" where
  "includes_str [] sub = (sub = [])"
| "includes_str (x # xs) sub = (starts_with (x # xs) sub \<or> includes_str xs sub)"

text \<open>\<open>s.split('@')[0]\<close>: the part of \<open>s\<close> before the first \<open>@\<close>.\<close>

definition before_at :: "string \<Rightarrow> string" where
  "before_at s = takeWhile (\<lambda>c. c \<noteq> CHR ''@'') s"

text \<open>
  \<open>String.prototype.trim\<close> removes the white space and the line terminators of ECMAScript
  at both ends: tab, line feed, vertical tab, form feed, carriage return, space, U+00A0,
  U+1680, U+2000 to U+200A, U+2028, U+2029, U+202F, U+205F, U+3000 and U+FEFF.
\<close>

definition is_space :: "nat \<Rightarrow> bool" where
  "is_space c =
     (c \<in> set [0x09, 0x0A, 0x0B, 0x0C, 0x0D, 0x20, 0xA0, 0x1680, 0x2028, 0x2029, 0x202F,
               0x205F, 0x3000, 0xFEFF]
      \<or> (0x2000 \<le> c \<and> c \<le> 0x200A))"

definition trim :: "js_string \<Rightarrow> js_string" where
  "trim s = rev (dropWhile is_space (rev (dropWhile is_space s)))"

text \<open>
  The comparison of two \<open>Date\<close> objects compares their time values. The time value of an
  Invalid Date is NaN, here \<open>None\<close>, and every comparison with NaN is false.
\<close>

definition date_lt :: "int option \<Rightarrow> int option \<Rightarrow> bool" where
  "date_lt a b =
     (case a of None \<Rightarrow> False | Some x \<Rightarrow> (case b of None \<Rightarrow> False | Some y \<Rightarrow> x < y))"

definition date_gt :: "int option \<Rightarrow> int option \<Rightarrow> bool" where
  "date_gt a b =
     (case a of None \<Rightarrow> False | Some x \<Rightarrow> (case b of None \<Rightarrow> False | Some y \<Rightarrow> x > y))"

definition date_ge :: "int option \<Rightarrow> int option \<Rightarrow> bool" where
  "date_ge a b =
     (case a of None \<Rightarrow> False | Some x \<Rightarrow> (case b of None \<Rightarrow> False | Some y \<Rightarrow> x \<ge> y))"

section \<open>The store\<close>

text \<open>
  The table is the list of its rows. The three operations the cron route uses:
  \<open>select * where is_active = true and reminder_sent = false\<close>,
  \<open>update set is_active = false where id in ids\<close> and
  \<open>update set reminder_sent = true where id = i\<close>.
\<close>

definition select_candidates :: "block list \<Rightarrow> block list" where
  "select_candidates rows = filter (\<lambda>r. is_active r \<and> \<not> reminder_sent r) rows"

definition update_inactive :: "nat list \<Rightarrow> block list \<Rightarrow> block list" where
  "update_inactive ids rows =
     map (\<lambda>r. if block_id r \<in> set ids then r\<lparr>is_active := False\<rparr> else r) rows"

definition update_reminder_sent :: "nat \<Rightarrow> block list \<Rightarrow> block list" where
  "update_reminder_sent i rows =
     map (\<lambda>r. if block_id r = i then r\<lparr>reminder_sent := True\<rparr> else r) rows"

section \<open>The email module\<close>

text \<open>
  \<open>sendReminderEmail\<close> throws when the Gmail credentials are not configured and when
  \<open>transporter.sendMail\<close> throws; otherwise it returns. The value is \<open>True\<close> when it returns.
\<close>

definition sendReminderEmail :: "process_env \<Rightarrow> services \<Rightarrow> string \<Rightarrow> string \<Rightarrow> block \<Rightarrow> bool" where
  "sendReminderEmail penv srv to userName b =
     (if \<not> truthy (GMAIL_USER penv) \<or> \<not> truthy (GMAIL_APP_PASSWORD penv) then False
      else sendMail srv to userName b)"

section \<open>The cron route\<close>

text \<open>
  The handler \<open>GET\<close> of \<open>src/app/api/cron/route.ts\<close>, with the instant \<open>now\<close> that
  \<open>new Date()\<close> reads as a parameter. The Supabase client reports a failure in the \<open>error\<close>
  field of its answer and does not throw, and nothing else in the handler throws outside
  the call of \<open>sendReminderEmail\<close>; so the two catch-all handlers (the one around the loop
  body, which counts an error, and the outer one, which answers 500) have no branch here.
  A bulk update that reports an error has changed no row.
\<close>

text \<open>The authorization check at the head of \<open>GET\<close>: the request is answered with 401.\<close>

definition isKnownCronService :: "string option \<Rightarrow> bool" where
  "isKnownCronService userAgent =
     (case userAgent of
        None \<Rightarrow> False
      | Some ua \<Rightarrow> includes_str ua ''cron-job.org'' \<or> includes_str ua ''cron-job''
                   \<or> includes_str ua ''UptimeRobot'')"

definition rejected :: "process_env \<Rightarrow> request \<Rightarrow> bool" where
  "rejected penv req =
     (case CRON_SECRET penv of
        None \<Rightarrow> False
      | Some cronSecret \<Rightarrow>
          cronSecret \<noteq> [] \<and> authorization req \<noteq> Some (''Bearer '' @ cronSecret)
          \<and> NODE_ENV penv = Some ''production'' \<and> \<not> isKnownCronService (user_agent req))"

definition expiredBlocks :: "int \<Rightarrow> block list \<Rightarrow> block list" where
  "expiredBlocks now quietBlocks =
     filter (\<lambda>b. is_active b \<and> end_time b < now) quietBlocks"

definition activeBlocks :: "int \<Rightarrow> block list \<Rightarrow> block list" where
  "activeBlocks now quietBlocks =
     filter (\<lambda>b. start_time b > now \<and> end_time b \<ge> now) quietBlocks"

definition reminderTime :: "block \<Rightarrow> int" where
  "reminderTime b = start_time b - 10 * 60 * 1000"

definition timeDiff :: "int \<Rightarrow> block \<Rightarrow> int" where
  "timeDiff now b = \<bar>now - reminderTime b\<bar>"

definition fiveMinutesInMs :: int where
  "fiveMinutesInMs = 5 * 60 * 1000"

text \<open>The test of the loop body: it is time to send the reminder of \<open>b\<close>.\<close>

definition due :: "int \<Rightarrow> block \<Rightarrow> bool" where
  "due now b = (timeDiff now b \<le> fiveMinutesInMs \<and> now < start_time b)"

text \<open>
  \<open>profile.full_name || userEmail?.split('@')[0] || 'User'\<close>
\<close>

definition userName_of :: "profile \<Rightarrow> string" where
  "userName_of p =
     (let fromEmail = (case email p of
                         None \<Rightarrow> ''User''
                       | Some e \<Rightarrow> if before_at e \<noteq> [] then before_at e else ''User'')
      in case full_name p of
           None \<Rightarrow> fromEmail
         | Some n \<Rightarrow> if n \<noteq> [] then n else fromEmail)"

text \<open>The mutable state of the loop: the table, the two counters, and the calls made so far.\<close>

record sweep_state =
  store :: "block list"
  sentCount :: nat
  errorCount :: nat
  effects :: "effect list"

definition log_effect :: "effect \<Rightarrow> sweep_state \<Rightarrow> sweep_state" where
  "log_effect e st = st\<lparr>effects := effects st @ [e]\<rparr>"

text \<open>
  What the loop does once a block is due and its owner has an email address: call
  \<open>sendReminderEmail\<close>; when it returns, update \<open>reminder_sent\<close> and count the block as sent,
  or as an error when the update fails; when it throws, count an error.
\<close>

definition dispatch :: "process_env \<Rightarrow> services \<Rightarrow> block \<Rightarrow> string \<Rightarrow> string \<Rightarrow> sweep_state \<Rightarrow> sweep_state" where
  "dispatch penv srv b userEmail userName st =
     (if sendReminderEmail penv srv userEmail userName b then
        (let st1 = log_effect (SendEmail (block_id b) userEmail userName True) st in
         if markUpdateError srv (block_id b) then
           (log_effect (UpdateReminderSent (block_id b) False) st1)
             \<lparr>errorCount := errorCount st1 + 1\<rparr>
         else
           (log_effect (UpdateReminderSent (block_id b) True) st1)
             \<lparr>store := update_reminder_sent (block_id b) (store st1),
              sentCount := sentCount st1 + 1\<rparr>)
      else
        (log_effect (SendEmail (block_id b) userEmail userName False) st)
          \<lparr>errorCount := errorCount st + 1\<rparr>)"

text \<open>The body of the loop over \<open>activeBlocks\<close>; each \<open>continue\<close> returns the state.\<close>

definition process_block :: "process_env \<Rightarrow> services \<Rightarrow> int \<Rightarrow> block \<Rightarrow> sweep_state \<Rightarrow> sweep_state" where
  "process_block penv srv now b st =
     (if due now b then
        (let st1 = log_effect (ProfileQuery (block_id b) (user_id b)) st in
         case profiles srv (user_id b) of
           (profileError, None) \<Rightarrow> st1
         | (profileError, Some p) \<Rightarrow>
             if profileError then st1
             else (case email p of
                     None \<Rightarrow> st1
                   | Some userEmail \<Rightarrow>
                       if userEmail = [] then st1
                       else dispatch penv srv b userEmail (userName_of p) st1))
      else st)"

fun process_blocks :: "process_env \<Rightarrow> services \<Rightarrow> int \<Rightarrow> block list \<Rightarrow> sweep_state \<Rightarrow> sweep_state" where
  "process_blocks penv srv now [] st = st"
| "process_blocks penv srv now (b # bs) st =
     process_blocks penv srv now bs (process_block penv srv now b st)"

text \<open>The bulk deactivation of the expired candidates, issued only when there are some.\<close>

definition deactivate_expired :: "services \<Rightarrow> block list \<Rightarrow> block list \<Rightarrow> block list \<times> effect list" where
  "deactivate_expired srv expired rows =
     (if length expired > 0 then
        (let expiredBlockIds = map block_id expired in
         if expireUpdateError srv then (rows, [UpdateInactive expiredBlockIds False])
         else (update_inactive expiredBlockIds rows, [UpdateInactive expiredBlockIds True]))
      else (rows, []))"

definition no_active_body :: "int \<Rightarrow> block list \<Rightarrow> block list \<Rightarrow> block list \<Rightarrow> (string \<times> json) list" where
  "no_active_body now quietBlocks expired active =
     [(''message'', JString ''No active quiet blocks need reminders at this time''),
      (''timestamp'', JDate now),
      (''checked'', JNumber (int (length quietBlocks))),
      (''expired'', JNumber (int (length expired))),
      (''sent'', JNumber 0),
      (''debug'', JObject
         [(''totalBlocks'', JNumber (int (length quietBlocks))),
          (''activeBlocks'', JNumber (int (length active))),
          (''expiredBlocks'', JNumber (int (length expired)))])]"

definition result_body :: "int \<Rightarrow> block list \<Rightarrow> sweep_state \<Rightarrow> (string \<times> json) list" where
  "result_body now quietBlocks st =
     [(''message'', JString ''Cron job completed''),
      (''timestamp'', JDate now),
      (''processed'', JNumber (int (length quietBlocks))),
      (''sent'', JNumber (int (sentCount st))),
      (''errors'', JNumber (int (errorCount st)))]"

text \<open>
  \<open>GET\<close> after the authorization check: read the candidates (500 when that fails), deactivate the expired
  ones, keep the blocks that have not started and have not expired, answer at once when
  there are none, and otherwise run the loop and answer with the counters. The result is
  the response, the table afterwards and the calls made.
\<close>

record result =
  resp :: response
  table :: "block list"
  calls :: "effect list"

definition sweep :: "process_env \<Rightarrow> services \<Rightarrow> int \<Rightarrow> block list \<Rightarrow> result" where
  "sweep penv srv now rows =
     (if fetchError srv then
        \<lparr>resp = \<lparr>status = 500, body = [(''error'', JString ''Failed to fetch quiet blocks'')]\<rparr>,
         table = rows, calls = []\<rparr>
      else
        (let quietBlocks = select_candidates rows;
             expired = expiredBlocks now quietBlocks;
             (rows1, effs1) = deactivate_expired srv expired rows;
             active = activeBlocks now quietBlocks
         in if length active = 0 then
              \<lparr>resp = \<lparr>status = 200, body = no_active_body now quietBlocks expired active\<rparr>,
               table = rows1, calls = effs1\<rparr>
            else
              (let st = process_blocks penv srv now active
                          \<lparr>store = rows1, sentCount = 0, errorCount = 0, effects = effs1\<rparr>
               in \<lparr>resp = \<lparr>status = 200, body = result_body now quietBlocks st\<rparr>,
                   table = store st, calls = effects st\<rparr>)))"

definition GET :: "process_env \<Rightarrow> services \<Rightarrow> request \<Rightarrow> int \<Rightarrow> block list \<Rightarrow> result" where
  "GET penv srv req now rows =
     (if rejected penv req then
        \<lparr>resp = \<lparr>status = 401, body = [(''error'', JString ''Unauthorized'')]\<rparr>,
         table = rows, calls = []\<rparr>
      else sweep penv srv now rows)"

definition POST :: "process_env \<Rightarrow> services \<Rightarrow> request \<Rightarrow> int \<Rightarrow> block list \<Rightarrow> result" where
  "POST penv srv req now rows = GET penv srv req now rows"

section \<open>The creation form\<close>

text \<open>
  The state of the form: the title and the two \<open>datetime-local\<close> fields. A field holds a
  wall-clock time without zone, here its milliseconds as if it were UTC, or is empty.
\<close>

record form =
  form_title :: js_string
  startTime :: "int option"
  endTime :: "int option"

text \<open>
  What surrounds \<open>handleSubmit\<close>: the logged-in user, whether \<open>getSession\<close> gives a session,
  how \<open>new Date\<close> reads the text of a field (an instant, read in the browser's zone, or an
  Invalid Date, as for a year of five digits), whether the query of the existing blocks and
  the insert report an error, and the id the database gives the row.
\<close>

record client =
  user :: "nat option"
  sessionOk :: bool
  parseLocal :: "int \<Rightarrow> int option"
  checkError :: bool
  insertError :: bool
  fresh_id :: nat

datatype submit_error =
    NotLoggedIn
  | AuthenticationError
  | TitleRequired
  | StartTimeRequired
  | EndTimeRequired
  | EndNotAfterStart
  | CheckFailed
  | Overlaps
  | InsertFailed

text \<open>\<open>formatISTForStorage\<close>: the wall-clock time read at the offset +05:30.\<close>

definition formatISTForStorage :: "int \<Rightarrow> int" where
  "formatISTForStorage istDateTime = istDateTime - (5 * 60 + 30) * 60 * 1000"

text \<open>\<open>select start_time, end_time where user_id = uid and is_active = true\<close>\<close>

definition existingBlocks :: "nat \<Rightarrow> block list \<Rightarrow> block list" where
  "existingBlocks uid rows = filter (\<lambda>r. user_id r = uid \<and> is_active r) rows"

text \<open>
  The loop over the existing blocks: \<open>True\<close> when it throws the overlap error. The new start
  and end are the \<open>Date\<close> objects read from the form; the start and end of a stored row
  are read from the timestamps the database returned.
\<close>

fun overlaps :: "int option \<Rightarrow> int option \<Rightarrow> block list \<Rightarrow> bool" where
  "overlaps newStart newEnd [] = False"
| "overlaps newStart newEnd (b # bs) =
     (if date_lt newStart (Some (end_time b)) \<and> date_gt newEnd (Some (start_time b)) then True
      else overlaps newStart newEnd bs)"

text \<open>
  The row to insert: its start and end are the texts of the two fields with the offset
  +05:30 appended, whatever the browser's zone.
\<close>

definition insertData :: "nat \<Rightarrow> nat \<Rightarrow> js_string \<Rightarrow> int \<Rightarrow> int \<Rightarrow> block" where
  "insertData new_id uid ttl s e =
     \<lparr>block_id = new_id, user_id = uid, title = trim ttl,
      start_time = formatISTForStorage s, end_time = formatISTForStorage e,
      is_active = True, reminder_sent = False\<rparr>"

definition handleSubmit :: "client \<Rightarrow> form \<Rightarrow> block list \<Rightarrow> submit_error + block list" where
  "handleSubmit cl f rows =
     (case user cl of
        None \<Rightarrow> Inl NotLoggedIn
      | Some uid \<Rightarrow>
          if \<not> sessionOk cl then Inl AuthenticationError
          else if trim (form_title f) = [] then Inl TitleRequired
          else (case startTime f of
                  None \<Rightarrow> Inl StartTimeRequired
                | Some s \<Rightarrow>
                    (case endTime f of
                       None \<Rightarrow> Inl EndTimeRequired
                     | Some e \<Rightarrow>
                         if date_ge (parseLocal cl s) (parseLocal cl e) then Inl EndNotAfterStart
                         else if checkError cl then Inl CheckFailed
                         else if overlaps (parseLocal cl s) (parseLocal cl e) (existingBlocks uid rows)
                           then Inl Overlaps
                         else if insertError cl then Inl InsertFailed
                         else Inr (rows @ [insertData (fresh_id cl) uid (form_title f) s e]))))"

section \<open>Vocabulary of the properties\<close>

text \<open>
  The contact the loop resolves for a block: the owner's email address and user name, or
  nothing when the profile query reports an error, returns no profile, or the profile has
  no (or an empty) email.
\<close>

definition contact :: "services \<Rightarrow> block \<Rightarrow> (string \<times> string) option" where
  "contact srv b =
     (case profiles srv (user_id b) of
        (profileError, None) \<Rightarrow> None
      | (profileError, Some p) \<Rightarrow>
          if profileError then None
          else (case email p of
                  None \<Rightarrow> None
                | Some userEmail \<Rightarrow>
                    if userEmail = [] then None else Some (userEmail, userName_of p)))"

text \<open>The email transport call for the block returns (does not throw).\<close>

definition delivered :: "process_env \<Rightarrow> services \<Rightarrow> block \<Rightarrow> bool" where
  "delivered penv srv b =
     (case contact srv b of
        None \<Rightarrow> False
      | Some (userEmail, userName) \<Rightarrow> sendReminderEmail penv srv userEmail userName b)"

text \<open>The reminder is delivered and the update of \<open>reminder_sent\<close> succeeds.\<close>

definition marked :: "process_env \<Rightarrow> services \<Rightarrow> block \<Rightarrow> bool" where
  "marked penv srv b = (delivered penv srv b \<and> \<not> markUpdateError srv (block_id b))"

text \<open>The calls one pass of the loop body makes for a block.\<close>

definition calls_for :: "process_env \<Rightarrow> services \<Rightarrow> int \<Rightarrow> block \<Rightarrow> effect list" where
  "calls_for penv srv now b =
     (if due now b then
        ProfileQuery (block_id b) (user_id b) #
        (case contact srv b of
           None \<Rightarrow> []
         | Some (userEmail, userName) \<Rightarrow>
             if sendReminderEmail penv srv userEmail userName b
             then [SendEmail (block_id b) userEmail userName True,
                   UpdateReminderSent (block_id b) (\<not> markUpdateError srv (block_id b))]
             else [SendEmail (block_id b) userEmail userName False])
      else [])"

text \<open>The ids whose \<open>reminder_sent\<close> the loop over \<open>bs\<close> sets.\<close>

definition sent_ids :: "process_env \<Rightarrow> services \<Rightarrow> int \<Rightarrow> block list \<Rightarrow> nat set" where
  "sent_ids penv srv now bs = block_id ` {b \<in> set bs. due now b \<and> marked penv srv b}"

text \<open>The ids the bulk update of one sweep deactivates.\<close>

definition deactivated_ids :: "services \<Rightarrow> int \<Rightarrow> block list \<Rightarrow> nat set" where
  "deactivated_ids srv now rows =
     (if expireUpdateError srv then {}
      else block_id ` set (expiredBlocks now (select_candidates rows)))"

text \<open>
  In a list of calls, every update of \<open>reminder_sent\<close> for a block id comes after a call of
  \<open>sendReminderEmail\<close> for that id that returned.
\<close>

definition sends_first :: "effect list \<Rightarrow> bool" where
  "sends_first cs \<longleftrightarrow>
     (\<forall>pre i ok post. cs = pre @ UpdateReminderSent i ok # post \<longrightarrow>
        (\<exists>e n. SendEmail i e n True \<in> set pre))"

text \<open>
  A sequence of invocations of the endpoint, one after the other, each with its own
  environment, collaborators' answers, request and instant: the table at the end and all
  the calls made, in order.
\<close>

record invocation =
  inv_env :: process_env
  inv_srv :: services
  inv_req :: request
  inv_now :: int

fun triggers :: "invocation list \<Rightarrow> block list \<Rightarrow> block list \<times> effect list" where
  "triggers [] rows = (rows, [])"
| "triggers (v # vs) rows =
     (let r = GET (inv_env v) (inv_srv v) (inv_req v) (inv_now v) rows;
          (rows', cs) = triggers vs (table r)
      in (rows', calls r @ cs))"

section \<open>Example data\<close>

text \<open>
  Two blocks of two users that start at minute 20, a block that ends at minute 10, a
  production environment with a secret, a request that presents it, and collaborators
  that all succeed.
\<close>

definition ex_block :: block where
  "ex_block = \<lparr>block_id = 1, user_id = 7, title = [0x53, 0x74, 0x75, 0x64, 0x79], start_time = 1200000,
     end_time = 4800000, is_active = True, reminder_sent = False\<rparr>"

definition ex_env :: process_env where
  "ex_env = \<lparr>CRON_SECRET = Some ''s3cret'', NODE_ENV = Some ''production'',
     GMAIL_USER = Some ''quiet@example.org'', GMAIL_APP_PASSWORD = Some ''app-password''\<rparr>"

definition ex_srv :: services where
  "ex_srv = \<lparr>fetchError = False, expireUpdateError = False,
     profiles = (\<lambda>u. (False, Some \<lparr>email = Some ''ada@example.org'', full_name = None\<rparr>)),
     sendMail = (\<lambda>to userName b. True),
     markUpdateError = (\<lambda>i. False)\<rparr>"

definition ex_req :: request where
  "ex_req = \<lparr>authorization = Some ''Bearer s3cret'', user_agent = None\<rparr>"

definition ex_ended :: block where
  "ex_ended = \<lparr>block_id = 2, user_id = 7, title = [0x52, 0x65, 0x61, 0x64, 0x69, 0x6E, 0x67], start_time = 0,
     end_time = 600000, is_active = True, reminder_sent = False\<rparr>"

text \<open>
  Two browsers, one in the zone +05:30 and one in UTC; both read a field whose year has
  four digits (a text before 10000-01-01T00:00) and give an Invalid Date beyond.
\<close>

definition ex_client :: client where
  "ex_client = \<lparr>user = Some 7, sessionOk = True,
     parseLocal = (\<lambda>t. if t < 253402300800000 then Some (t - 19800000) else None),
     checkError = False, insertError = False, fresh_id = 3\<rparr>"

definition ex_utc_client :: client where
  "ex_utc_client = \<lparr>user = Some 7, sessionOk = True,
     parseLocal = (\<lambda>t. if t < 253402300800000 then Some t else None),
     checkError = False, insertError = False, fresh_id = 3\<rparr>"

text \<open>The title \<open>Maths\<close>.\<close>

definition ex_title :: js_string where
  "ex_title = [0x4D, 0x61, 0x74, 0x68, 0x73]"

definition ex_other :: block where
  "ex_other = \<lparr>block_id = 4, user_id = 8, title = [0x50, 0x69, 0x61, 0x6E, 0x6F], start_time = 1200000,
     end_time = 3000000, is_active = True, reminder_sent = False\<rparr>"

text \<open>Collaborators whose mail transport throws for the blocks of user 8.\<close>

definition ex_flaky :: services where
  "ex_flaky = \<lparr>fetchError = False, expireUpdateError = False,
     profiles = (\<lambda>u. (False, Some \<lparr>email = Some ''ada@example.org'', full_name = None\<rparr>)),
     sendMail = (\<lambda>to userName b. user_id b \<noteq> 8),
     markUpdateError = (\<lambda>i. False)\<rparr>"

text \<open>Collaborators whose update of \<open>reminder_sent\<close> fails for the block 4.\<close>

definition ex_unmarked :: services where
  "ex_unmarked = \<lparr>fetchError = False, expireUpdateError = False,
     profiles = (\<lambda>u. (False, Some \<lparr>email = Some ''ada@example.org'', full_name = None\<rparr>)),
     sendMail = (\<lambda>to userName b. True),
     markUpdateError = (\<lambda>i. i = 4)\<rparr>"


section \<open>The loop and the sweep, field by field\<close>

lemma process_block_eq:
  "process_block penv srv now b st =
     st\<lparr>store := (if due now b \<and> marked penv srv b
                  then update_reminder_sent (block_id b) (store st) else store st),
        sentCount := sentCount st + (if due now b \<and> marked penv srv b then 1 else 0),
        errorCount := errorCount st +
           (if due now b \<and> contact srv b \<noteq> None \<and> \<not> marked penv srv b then 1 else 0),
        effects := effects st @ calls_for penv srv now b\<rparr>"
  by (simp add: process_block_def dispatch_def log_effect_def marked_def delivered_def
      contact_def calls_for_def Let_def split: prod.splits option.splits)

lemma sent_ids_Nil: "sent_ids penv srv now [] = {}"
  by (simp add: sent_ids_def)

lemma sent_ids_Cons:
  "sent_ids penv srv now (b # bs) =
     (if due now b \<and> marked penv srv b then insert (block_id b) (sent_ids penv srv now bs)
      else sent_ids penv srv now bs)"
  by (auto simp: sent_ids_def)

lemma store_process_blocks:
  "store (process_blocks penv srv now bs st) =
     map (\<lambda>r. if block_id r \<in> sent_ids penv srv now bs then r\<lparr>reminder_sent := True\<rparr> else r)
       (store st)"
proof (induction bs arbitrary: st)
  case Nil
  show ?case by (simp add: sent_ids_Nil)
next
  case (Cons b bs)
  show ?case
    by (simp add: Cons.IH process_block_eq sent_ids_Cons update_reminder_sent_def)
qed



lemma effects_process_blocks:
  "effects (process_blocks penv srv now bs st) =
     effects st @ concat (map (calls_for penv srv now) bs)"
  by (induction bs arbitrary: st) (simp_all add: process_block_eq)

lemma GET_sweep: "\<not> rejected penv req \<Longrightarrow> GET penv srv req now rows = sweep penv srv now rows"
  by (simp add: GET_def)

lemma update_inactive_Nil: "update_inactive [] rows = rows"
  by (simp add: update_inactive_def)

lemma fst_deactivate_expired:
  "fst (deactivate_expired srv ex rows) =
     (if expireUpdateError srv then rows else update_inactive (map block_id ex) rows)"
  by (cases ex) (simp_all add: deactivate_expired_def update_inactive_Nil Let_def)

lemma snd_deactivate_expired:
  "set (snd (deactivate_expired srv ex rows)) \<subseteq> {UpdateInactive (map block_id ex) (\<not> expireUpdateError srv)}"
  by (simp add: deactivate_expired_def Let_def)

lemma sent_ids_empty: "bs = [] \<Longrightarrow> sent_ids penv srv now bs = {}"
  by (simp add: sent_ids_def)

lemma calls_sweep:
  assumes "\<not> fetchError srv"
  shows "calls (sweep penv srv now rows) =
     snd (deactivate_expired srv (expiredBlocks now (select_candidates rows)) rows) @
     concat (map (calls_for penv srv now) (activeBlocks now (select_candidates rows)))"
  using assms
  by (simp add: sweep_def Let_def effects_process_blocks split: prod.splits)

lemma table_sweep:
  assumes "\<not> fetchError srv"
  shows "table (sweep penv srv now rows) =
     map (\<lambda>r. if block_id r \<in> sent_ids penv srv now (activeBlocks now (select_candidates rows))
               then r\<lparr>reminder_sent := True\<rparr> else r)
       (fst (deactivate_expired srv (expiredBlocks now (select_candidates rows)) rows))"
  using assms
  by (simp add: sweep_def Let_def store_process_blocks sent_ids_empty split: prod.splits)

lemma status_sweep: "status (resp (sweep penv srv now rows)) = (if fetchError srv then 500 else 200)"
  by (simp add: sweep_def Let_def split: prod.splits)

lemma ProfileQuery_calls_for:
  "ProfileQuery i u \<in> set (calls_for penv srv now b) \<longleftrightarrow>
     i = block_id b \<and> u = user_id b \<and> due now b"
  by (auto simp: calls_for_def split: option.splits prod.splits)

lemma SendEmail_calls_for:
  "SendEmail i e n ok \<in> set (calls_for penv srv now b) \<longleftrightarrow>
     i = block_id b \<and> due now b \<and> contact srv b = Some (e, n)
     \<and> ok = sendReminderEmail penv srv e n b"
proof (cases "contact srv b")
  case None
  then show ?thesis by (simp add: calls_for_def)
next
  case (Some c)
  obtain e' n' where c: "c = (e', n')" by (cases c)
  show ?thesis
    by (cases "sendReminderEmail penv srv e' n' b") (auto simp: calls_for_def Some c)
qed

lemma UpdateReminderSent_calls_for:
  "UpdateReminderSent i ok \<in> set (calls_for penv srv now b) \<longleftrightarrow>
     i = block_id b \<and> due now b \<and> delivered penv srv b
     \<and> ok = (\<not> markUpdateError srv (block_id b))"
  by (auto simp: calls_for_def delivered_def split: option.splits prod.splits)

lemma in_snd_deactivate_expired:
  "e \<in> set (snd (deactivate_expired srv ex rows)) \<Longrightarrow> \<exists>ids ok. e = UpdateInactive ids ok"
  using snd_deactivate_expired [of srv ex rows] by auto

lemma ProfileQuery_calls_sweep:
  assumes "\<not> fetchError srv"
  shows "ProfileQuery i u \<in> set (calls (sweep penv srv now rows)) \<longleftrightarrow>
     (\<exists>b \<in> set (activeBlocks now (select_candidates rows)).
        i = block_id b \<and> u = user_id b \<and> due now b)"
  using in_snd_deactivate_expired [of "ProfileQuery i u" srv]
  by (auto simp: calls_sweep [OF assms] ProfileQuery_calls_for)

lemma SendEmail_calls_sweep:
  assumes "\<not> fetchError srv"
  shows "SendEmail i e n ok \<in> set (calls (sweep penv srv now rows)) \<longleftrightarrow>
     (\<exists>b \<in> set (activeBlocks now (select_candidates rows)).
        i = block_id b \<and> due now b \<and> contact srv b = Some (e, n)
        \<and> ok = sendReminderEmail penv srv e n b)"
  using in_snd_deactivate_expired [of "SendEmail i e n ok" srv]
  by (auto simp: calls_sweep [OF assms] SendEmail_calls_for)

lemma UpdateReminderSent_calls_sweep:
  assumes "\<not> fetchError srv"
  shows "UpdateReminderSent i ok \<in> set (calls (sweep penv srv now rows)) \<longleftrightarrow>
     (\<exists>b \<in> set (activeBlocks now (select_candidates rows)).
        i = block_id b \<and> due now b \<and> delivered penv srv b
        \<and> ok = (\<not> markUpdateError srv (block_id b)))"
  using in_snd_deactivate_expired [of "UpdateReminderSent i ok" srv]
  by (auto simp: calls_sweep [OF assms] UpdateReminderSent_calls_for)

lemma same_id_same_row:
  assumes "distinct (map block_id rows)" and "b \<in> set rows" and "b' \<in> set rows"
    and "block_id b' = block_id b"
  shows "b' = b"
  using assms by (meson distinct_map inj_onD)

lemma in_activeBlocks:
  "b \<in> set (activeBlocks now (select_candidates rows)) \<longleftrightarrow>
     b \<in> set rows \<and> is_active b \<and> \<not> reminder_sent b \<and> now < start_time b \<and> now \<le> end_time b"
  by (auto simp: activeBlocks_def select_candidates_def)

lemma in_expiredBlocks:
  "b \<in> set (expiredBlocks now (select_candidates rows)) \<longleftrightarrow>
     b \<in> set rows \<and> is_active b \<and> \<not> reminder_sent b \<and> end_time b < now"
  by (auto simp: expiredBlocks_def select_candidates_def)


lemma table_sweep_map:
  assumes "\<not> fetchError srv"
  shows "table (sweep penv srv now rows) =
     map (\<lambda>r. r\<lparr>is_active := is_active r \<and> block_id r \<notin> deactivated_ids srv now rows,
               reminder_sent := reminder_sent r
                 \<or> block_id r \<in> sent_ids penv srv now (activeBlocks now (select_candidates rows))\<rparr>)
       rows"
  by (simp add: table_sweep [OF assms] fst_deactivate_expired deactivated_ids_def
      update_inactive_def)

lemma length_table_GET: "length (table (GET penv srv req now rows)) = length rows"
  by (cases "fetchError srv") (simp_all add: GET_def table_sweep_map, simp add: sweep_def)

lemma table_GET_nth:
  assumes "\<not> rejected penv req" and "\<not> fetchError srv" and "k < length rows"
  shows "table (GET penv srv req now rows) ! k =
     (rows ! k)\<lparr>is_active := is_active (rows ! k)
                   \<and> block_id (rows ! k) \<notin> deactivated_ids srv now rows,
               reminder_sent := reminder_sent (rows ! k)
                 \<or> block_id (rows ! k) \<in> sent_ids penv srv now (activeBlocks now (select_candidates rows))\<rparr>"
  using assms by (simp add: GET_sweep table_sweep_map)

lemma table_GET_unchanged:
  assumes "rejected penv req \<or> fetchError srv"
  shows "table (GET penv srv req now rows) = rows"
  using assms by (auto simp: GET_def sweep_def)

lemma is_active_GET:
  assumes "k < length rows" and "is_active (table (GET penv srv req now rows) ! k)"
  shows "is_active (rows ! k)"
proof (cases "rejected penv req \<or> fetchError srv")
  case True
  with assms show ?thesis by (simp add: table_GET_unchanged)
next
  case False
  with assms show ?thesis by (simp add: table_GET_nth)
qed

lemma reminder_sent_GET:
  assumes "k < length rows" and "reminder_sent (rows ! k)"
  shows "reminder_sent (table (GET penv srv req now rows) ! k)"
proof (cases "rejected penv req \<or> fetchError srv")
  case True
  with assms show ?thesis by (simp add: table_GET_unchanged)
next
  case False
  with assms show ?thesis by (simp add: table_GET_nth)
qed

lemma block_id_GET: "map block_id (table (GET penv srv req now rows)) = map block_id rows"
proof (cases "rejected penv req \<or> fetchError srv")
  case True
  then show ?thesis by (simp add: table_GET_unchanged)
next
  case False
  then show ?thesis by (simp add: GET_sweep table_sweep_map o_def)
qed

lemma fst_triggers_Cons:
  "fst (triggers (v # vs) rows) =
     fst (triggers vs (table (GET (inv_env v) (inv_srv v) (inv_req v) (inv_now v) rows)))"
  by (simp add: Let_def case_prod_beta)

lemma snd_triggers_Cons:
  "snd (triggers (v # vs) rows) =
     calls (GET (inv_env v) (inv_srv v) (inv_req v) (inv_now v) rows) @
     snd (triggers vs (table (GET (inv_env v) (inv_srv v) (inv_req v) (inv_now v) rows)))"
  by (simp add: Let_def case_prod_beta)

lemma triggers_inactive:
  assumes "k < length rows" and "\<not> is_active (rows ! k)"
  shows "\<not> is_active (fst (triggers vs rows) ! k)"
  using assms
proof (induction vs arbitrary: rows)
  case Nil
  then show ?case by simp
next
  case (Cons v vs)
  let ?t = "table (GET (inv_env v) (inv_srv v) (inv_req v) (inv_now v) rows)"
  from Cons.prems have "\<not> is_active (?t ! k)" using is_active_GET by blast
  moreover from Cons.prems have "k < length ?t" by (simp add: length_table_GET)
  ultimately have "\<not> is_active (fst (triggers vs ?t) ! k)" by (rule Cons.IH [rotated])
  then show ?case by (simp add: fst_triggers_Cons del: triggers.simps(2))
qed

lemma overlaps_iff:
  "overlaps (Some newStart) (Some newEnd) bs \<longleftrightarrow>
     (\<exists>b \<in> set bs. newStart < end_time b \<and> newEnd > start_time b)"
  by (induction bs) (auto simp: date_lt_def date_gt_def)

lemma overlaps_invalid:
  "\<not> overlaps None newEnd bs" and "\<not> overlaps newStart None bs"
  by (induction bs) (auto simp: date_lt_def date_gt_def split: option.splits)

lemma sends_first_Nil: "sends_first []"
  by (simp add: sends_first_def)

lemma sends_first_append:
  assumes "sends_first xs" and "sends_first ys"
  shows "sends_first (xs @ ys)"
  unfolding sends_first_def
proof (intro allI impI)
  fix pre i ok post
  assume eq: "xs @ ys = pre @ UpdateReminderSent i ok # post"
  then obtain us where "(xs = pre @ us \<and> us @ ys = UpdateReminderSent i ok # post)
      \<or> (xs @ us = pre \<and> ys = us @ UpdateReminderSent i ok # post)"
    by (auto simp: append_eq_append_conv2)
  then show "\<exists>e n. SendEmail i e n True \<in> set pre"
  proof
    assume a: "xs = pre @ us \<and> us @ ys = UpdateReminderSent i ok # post"
    show ?thesis
    proof (cases us)
      case Nil
      with a have "ys = [] @ UpdateReminderSent i ok # post" by simp
      with assms(2) have "\<exists>e n. SendEmail i e n True \<in> set []"
        unfolding sends_first_def by blast
      then show ?thesis by simp
    next
      case (Cons u us')
      with a have "xs = pre @ UpdateReminderSent i ok # us'" by simp
      with assms(1) show ?thesis unfolding sends_first_def by blast
    qed
  next
    assume b: "xs @ us = pre \<and> ys = us @ UpdateReminderSent i ok # post"
    with assms(2) obtain e n where "SendEmail i e n True \<in> set us"
      unfolding sends_first_def by blast
    with b have "SendEmail i e n True \<in> set pre" by auto
    then show ?thesis by blast
  qed
qed

lemma sends_first_calls_for: "sends_first (calls_for penv srv now b)"
proof (cases "due now b")
  case False
  then show ?thesis by (simp add: calls_for_def sends_first_def)
next
  case True
  show ?thesis
  proof (cases "contact srv b")
    case None
    with True show ?thesis
      by (auto simp: calls_for_def sends_first_def Cons_eq_append_conv)
  next
    case (Some c)
    obtain e n where c: "c = (e, n)" by (cases c)
    show ?thesis
      using True Some c
      by (cases "sendReminderEmail penv srv e n b")
        (auto simp: calls_for_def sends_first_def Cons_eq_append_conv)
  qed
qed

lemma sends_first_concat:
  "(\<And>b. sends_first (f b)) \<Longrightarrow> sends_first (concat (map f bs))"
  by (induction bs) (simp_all add: sends_first_Nil sends_first_append)

lemma sends_first_deactivate_expired: "sends_first (snd (deactivate_expired srv ex rows))"
  by (auto simp: deactivate_expired_def Let_def sends_first_def Cons_eq_append_conv)

lemma sends_first_GET: "sends_first (calls (GET penv srv req now rows))"
proof (cases "rejected penv req \<or> fetchError srv")
  case True
  then show ?thesis by (auto simp: GET_def sweep_def sends_first_Nil)
next
  case False
  then show ?thesis
    by (simp add: GET_sweep calls_sweep sends_first_append sends_first_deactivate_expired
        sends_first_concat sends_first_calls_for)
qed

lemma UpdateReminderSent_calls_GET:
  "UpdateReminderSent i ok \<in> set (calls (GET penv srv req now rows)) \<longleftrightarrow>
     \<not> rejected penv req \<and> \<not> fetchError srv \<and>
     (\<exists>b \<in> set (activeBlocks now (select_candidates rows)).
        i = block_id b \<and> due now b \<and> delivered penv srv b
        \<and> ok = (\<not> markUpdateError srv (block_id b)))"
proof (cases "rejected penv req \<or> fetchError srv")
  case True
  then show ?thesis by (auto simp: GET_def sweep_def)
next
  case False
  then show ?thesis by (simp add: GET_sweep UpdateReminderSent_calls_sweep)
qed

lemma in_sent_ids:
  "i \<in> sent_ids penv srv now bs \<longleftrightarrow> (\<exists>b \<in> set bs. i = block_id b \<and> due now b \<and> marked penv srv b)"
  by (auto simp: sent_ids_def)

lemma marked_iff_update:
  "UpdateReminderSent i True \<in> set (calls (GET penv srv req now rows)) \<longleftrightarrow>
     \<not> rejected penv req \<and> \<not> fetchError srv
     \<and> i \<in> sent_ids penv srv now (activeBlocks now (select_candidates rows))"
  by (auto simp: UpdateReminderSent_calls_GET in_sent_ids marked_def)

lemma reminder_sent_GET_iff:
  assumes "k < length rows"
  shows "reminder_sent (table (GET penv srv req now rows) ! k) \<longleftrightarrow>
     reminder_sent (rows ! k)
     \<or> UpdateReminderSent (block_id (rows ! k)) True \<in> set (calls (GET penv srv req now rows))"
proof (cases "rejected penv req \<or> fetchError srv")
  case True
  then show ?thesis by (auto simp: table_GET_unchanged marked_iff_update)
next
  case False
  with assms show ?thesis by (simp add: table_GET_nth marked_iff_update)
qed

lemma ProfileQuery_calls_GET:
  "ProfileQuery i u \<in> set (calls (GET penv srv req now rows)) \<longleftrightarrow>
     \<not> rejected penv req \<and> \<not> fetchError srv \<and>
     (\<exists>b \<in> set (activeBlocks now (select_candidates rows)).
        i = block_id b \<and> u = user_id b \<and> due now b)"
proof (cases "rejected penv req \<or> fetchError srv")
  case True
  then show ?thesis by (auto simp: GET_def sweep_def)
next
  case False
  then show ?thesis by (simp add: GET_sweep ProfileQuery_calls_sweep)
qed

lemma SendEmail_calls_GET:
  "SendEmail i e n ok \<in> set (calls (GET penv srv req now rows)) \<longleftrightarrow>
     \<not> rejected penv req \<and> \<not> fetchError srv \<and>
     (\<exists>b \<in> set (activeBlocks now (select_candidates rows)).
        i = block_id b \<and> due now b \<and> contact srv b = Some (e, n)
        \<and> ok = sendReminderEmail penv srv e n b)"
proof (cases "rejected penv req \<or> fetchError srv")
  case True
  then show ?thesis by (auto simp: GET_def sweep_def)
next
  case False
  then show ?thesis by (simp add: GET_sweep SendEmail_calls_sweep)
qed

lemma count_calls_for:
  "count_list (calls_for penv srv now b) (UpdateReminderSent i True)
     \<le> (if block_id b = i then 1 else 0)"
  by (auto simp: calls_for_def split: option.splits prod.splits)

lemma count_concat_calls_for:
  assumes "distinct (map block_id bs)"
  shows "count_list (concat (map (calls_for penv srv now) bs)) (UpdateReminderSent i True)
     \<le> (if i \<in> block_id ` set bs then 1 else 0)"
  using assms
proof (induction bs)
  case Nil
  show ?case by simp
next
  case (Cons b bs)
  from Cons.prems have d: "distinct (map block_id bs)" and nb: "block_id b \<notin> block_id ` set bs"
    by simp_all
  have ih: "count_list (concat (map (calls_for penv srv now) bs)) (UpdateReminderSent i True)
     \<le> (if i \<in> block_id ` set bs then 1 else 0)"
    using Cons.IH [OF d] .
  have hd: "count_list (calls_for penv srv now b) (UpdateReminderSent i True)
     \<le> (if block_id b = i then 1 else 0)"
    by (rule count_calls_for)
  show ?case
  proof (cases "block_id b = i")
    case True
    with nb have "i \<notin> block_id ` set bs" by simp
    with ih hd True show ?thesis by simp
  next
    case False
    with ih hd show ?thesis by auto
  qed
qed

lemma distinct_activeBlocks:
  "distinct (map block_id rows) \<Longrightarrow>
   distinct (map block_id (activeBlocks now (select_candidates rows)))"
  by (simp add: activeBlocks_def select_candidates_def distinct_map_filter)

lemma count_deactivate_expired:
  "count_list (snd (deactivate_expired srv ex rows)) (UpdateReminderSent i ok) = 0"
  by (simp add: deactivate_expired_def Let_def)

lemma count_calls_GET:
  assumes "distinct (map block_id rows)"
  shows "count_list (calls (GET penv srv req now rows)) (UpdateReminderSent i True) \<le> 1"
proof (cases "rejected penv req \<or> fetchError srv")
  case True
  then show ?thesis by (auto simp: GET_def sweep_def)
next
  case False
  have "count_list (concat (map (calls_for penv srv now) (activeBlocks now (select_candidates rows))))
      (UpdateReminderSent i True) \<le> 1"
    using count_concat_calls_for [OF distinct_activeBlocks [OF assms], of penv srv now now i]
    by (simp split: if_splits)
  with False show ?thesis
    by (simp add: GET_sweep calls_sweep count_deactivate_expired)
qed

lemma all_sent_after_update:
  assumes "UpdateReminderSent i True \<in> set (calls (GET penv srv req now rows))"
    and "r \<in> set (table (GET penv srv req now rows))" and "block_id r = i"
  shows "reminder_sent r"
proof -
  from assms(1) have ok: "\<not> rejected penv req" "\<not> fetchError srv"
    and i: "i \<in> sent_ids penv srv now (activeBlocks now (select_candidates rows))"
    by (simp_all add: marked_iff_update)
  from assms(2,3) i show ?thesis
    by (auto simp: GET_sweep [OF ok(1)] table_sweep_map [OF ok(2)])
qed

lemma all_sent_kept:
  assumes "\<forall>r \<in> set rows. block_id r = i \<longrightarrow> reminder_sent r"
    and "r \<in> set (table (GET penv srv req now rows))" and "block_id r = i"
  shows "reminder_sent r"
proof -
  from assms(2) obtain k where k: "k < length rows" "r = table (GET penv srv req now rows) ! k"
    by (auto simp: in_set_conv_nth length_table_GET)
  have "block_id (table (GET penv srv req now rows) ! k) = block_id (rows ! k)"
    using k(1) nth_map [of k "table (GET penv srv req now rows)" block_id]
      nth_map [of k rows block_id]
    by (simp add: block_id_GET length_table_GET)
  with assms(3) k have "block_id (rows ! k) = i" by simp
  with assms(1) k(1) have "reminder_sent (rows ! k)" by simp
  with k show ?thesis by (simp add: reminder_sent_GET)
qed

lemma no_calls_when_sent:
  assumes "\<forall>r \<in> set rows. block_id r = i \<longrightarrow> reminder_sent r"
  shows "ProfileQuery i u \<notin> set (calls (GET penv srv req now rows))"
    and "SendEmail i e n ok \<notin> set (calls (GET penv srv req now rows))"
    and "UpdateReminderSent i ok' \<notin> set (calls (GET penv srv req now rows))"
  using assms
  by (auto simp: ProfileQuery_calls_GET SendEmail_calls_GET UpdateReminderSent_calls_GET
      in_activeBlocks)

lemma no_update_triggers:
  assumes "\<forall>r \<in> set rows. block_id r = i \<longrightarrow> reminder_sent r"
  shows "UpdateReminderSent i ok \<notin> set (snd (triggers vs rows))"
  using assms
proof (induction vs arbitrary: rows)
  case Nil
  show ?case by simp
next
  case (Cons v vs)
  let ?g = "GET (inv_env v) (inv_srv v) (inv_req v) (inv_now v) rows"
  have "\<forall>r \<in> set (table ?g). block_id r = i \<longrightarrow> reminder_sent r"
    using all_sent_kept [OF Cons.prems] by blast
  then have "UpdateReminderSent i ok \<notin> set (snd (triggers vs (table ?g)))"
    by (rule Cons.IH)
  moreover have "UpdateReminderSent i ok \<notin> set (calls ?g)"
    using Cons.prems by (rule no_calls_when_sent(3))
  ultimately show ?case
    by (simp add: snd_triggers_Cons del: triggers.simps(2))
qed

lemma count_triggers:
  assumes "distinct (map block_id rows)"
  shows "count_list (snd (triggers vs rows)) (UpdateReminderSent i True) \<le> 1"
  using assms
proof (induction vs arbitrary: rows)
  case Nil
  show ?case by simp
next
  case (Cons v vs)
  let ?g = "GET (inv_env v) (inv_srv v) (inv_req v) (inv_now v) rows"
  have d: "distinct (map block_id (table ?g))"
    using Cons.prems by (simp add: block_id_GET)
  have one: "count_list (calls ?g) (UpdateReminderSent i True) \<le> 1"
    using Cons.prems by (rule count_calls_GET)
  show ?case
  proof (cases "UpdateReminderSent i True \<in> set (calls ?g)")
    case True
    then have "\<forall>r \<in> set (table ?g). block_id r = i \<longrightarrow> reminder_sent r"
      using all_sent_after_update by blast
    then have "UpdateReminderSent i True \<notin> set (snd (triggers vs (table ?g)))"
      by (rule no_update_triggers)
    then have "count_list (snd (triggers vs (table ?g))) (UpdateReminderSent i True) = 0"
      by simp
    with one show ?thesis
      by (simp add: snd_triggers_Cons del: triggers.simps(2))
  next
    case False
    then have "count_list (calls ?g) (UpdateReminderSent i True) = 0" by simp
    with Cons.IH [OF d] show ?thesis
      by (simp add: snd_triggers_Cons del: triggers.simps(2))
  qed
qed

lemma triggers_reminder_sent:
  assumes "k < length rows" and "reminder_sent (rows ! k)"
  shows "reminder_sent (fst (triggers vs rows) ! k)"
  using assms
proof (induction vs arbitrary: rows)
  case Nil
  then show ?case by simp
next
  case (Cons v vs)
  let ?t = "table (GET (inv_env v) (inv_srv v) (inv_req v) (inv_now v) rows)"
  from Cons.prems have "reminder_sent (?t ! k)" by (simp add: reminder_sent_GET)
  moreover from Cons.prems have "k < length ?t" by (simp add: length_table_GET)
  ultimately have "reminder_sent (fst (triggers vs ?t) ! k)" by (rule Cons.IH [rotated])
  then show ?case by (simp add: fst_triggers_Cons del: triggers.simps(2))
qed

lemma handleSubmit_inserts:
  assumes "handleSubmit cl f rows = Inr rows'"
  shows "\<exists>b. rows' = rows @ [b] \<and> \<not> reminder_sent b \<and> is_active b"
proof (cases "user cl")
  case None
  with assms show ?thesis by (simp add: handleSubmit_def)
next
  case u: (Some uid)
  show ?thesis
  proof (cases "startTime f")
    case None
    with assms u show ?thesis by (simp add: handleSubmit_def split: if_splits)
  next
    case s: (Some s)
    show ?thesis
    proof (cases "endTime f")
      case None
      with assms u s show ?thesis by (simp add: handleSubmit_def split: if_splits)
    next
      case e: (Some e)
      from assms u s e
      have "rows' = rows @ [insertData (fresh_id cl) uid (form_title f) s e]"
        by (simp add: handleSubmit_def split: if_splits)
      then show ?thesis by (simp add: insertData_def)
    qed
  qed
qed

lemma ex_sweep:
  "GET ex_env ex_srv ex_req 600000 [ex_block] =
     \<lparr>resp = \<lparr>status = 200,
         body = [(''message'', JString ''Cron job completed''), (''timestamp'', JDate 600000),
                 (''processed'', JNumber 1), (''sent'', JNumber 1), (''errors'', JNumber 0)]\<rparr>,
      table = [ex_block\<lparr>reminder_sent := True\<rparr>],
      calls = [ProfileQuery 1 7, SendEmail 1 ''ada@example.org'' ''ada'' True,
               UpdateReminderSent 1 True]\<rparr>"
  by (simp add: GET_def sweep_def rejected_def ex_env_def ex_req_def ex_srv_def ex_block_def
      select_candidates_def expiredBlocks_def activeBlocks_def deactivate_expired_def
      process_block_def dispatch_def log_effect_def due_def timeDiff_def reminderTime_def
      fiveMinutesInMs_def sendReminderEmail_def truthy_def userName_of_def before_at_def
      update_reminder_sent_def result_body_def Let_def)

lemma not_deactivated:
  assumes "distinct (map block_id rows)" and "k < length rows" and "now \<le> end_time (rows ! k)"
  shows "block_id (rows ! k) \<notin> deactivated_ids srv now rows"
proof
  assume "block_id (rows ! k) \<in> deactivated_ids srv now rows"
  then obtain b' where b': "b' \<in> set (expiredBlocks now (select_candidates rows))"
      "block_id b' = block_id (rows ! k)"
    by (auto simp: deactivated_ids_def split: if_splits)
  from b'(1) have "b' \<in> set rows" and "end_time b' < now"
    by (simp_all add: in_expiredBlocks)
  moreover have "rows ! k \<in> set rows" using assms(2) by simp
  ultimately have "end_time (rows ! k) < now"
    using assms(1) b'(2) same_id_same_row by blast
  with assms(3) show False by simp
qed

lemma not_sent:
  assumes "distinct (map block_id rows)" and "k < length rows"
    and "\<not> marked penv srv (rows ! k)"
  shows "block_id (rows ! k) \<notin> sent_ids penv srv now (activeBlocks now (select_candidates rows))"
proof
  assume "block_id (rows ! k) \<in> sent_ids penv srv now (activeBlocks now (select_candidates rows))"
  then obtain b' where b': "b' \<in> set (activeBlocks now (select_candidates rows))"
      "block_id (rows ! k) = block_id b'" "marked penv srv b'"
    by (auto simp: in_sent_ids)
  from b'(1) have "b' \<in> set rows" by (simp add: in_activeBlocks)
  moreover have "rows ! k \<in> set rows" using assms(2) by simp
  ultimately have "b' = rows ! k"
    using assms(1) b'(2) same_id_same_row by metis
  with b'(3) assms(3) show False by simp
qed

lemma row_in_activeBlocks:
  assumes "k < length rows" and "is_active (rows ! k)" and "\<not> reminder_sent (rows ! k)"
    and "now \<le> end_time (rows ! k)" and "due now (rows ! k)"
  shows "rows ! k \<in> set (activeBlocks now (select_candidates rows))"
  using assms by (simp add: in_activeBlocks due_def)

lemma contact_None_iff:
  "contact srv b = None \<longleftrightarrow>
     fst (profiles srv (user_id b)) \<or> snd (profiles srv (user_id b)) = None
     \<or> (\<exists>p. snd (profiles srv (user_id b)) = Some p \<and> \<not> truthy (email p))"
  by (cases "profiles srv (user_id b)")
    (auto simp: contact_def truthy_def split: option.splits)

lemma not_delivered_iff:
  "\<not> delivered penv srv b \<longleftrightarrow>
     contact srv b = None \<or> (\<exists>e n. contact srv b = Some (e, n) \<and> \<not> sendReminderEmail penv srv e n b)"
  by (auto simp: delivered_def split: option.splits)

lemma candidate_after:
  assumes "\<not> rejected penv req" and "\<not> fetchError srv"
    and "b' \<in> set (table (GET penv srv req now rows))"
    and "is_active b'" and "\<not> reminder_sent b'"
  shows "b' \<in> set rows
    \<and> block_id b' \<notin> sent_ids penv srv now (activeBlocks now (select_candidates rows))"
proof -
  from assms(3) obtain k where k: "k < length rows" "b' = table (GET penv srv req now rows) ! k"
    by (auto simp: in_set_conv_nth length_table_GET)
  have eq: "b' = (rows ! k)\<lparr>is_active := is_active (rows ! k)
                   \<and> block_id (rows ! k) \<notin> deactivated_ids srv now rows,
               reminder_sent := reminder_sent (rows ! k)
                 \<or> block_id (rows ! k) \<in> sent_ids penv srv now (activeBlocks now (select_candidates rows))\<rparr>"
    using k assms(1,2) by (simp add: table_GET_nth)
  from assms(4) have a: "is_active (rows ! k)"
      "block_id (rows ! k) \<notin> deactivated_ids srv now rows"
    by (simp_all add: eq)
  from assms(5) have s: "\<not> reminder_sent (rows ! k)"
      "block_id (rows ! k) \<notin> sent_ids penv srv now (activeBlocks now (select_candidates rows))"
    by (simp_all add: eq)
  from eq a s have "b' = rows ! k" by simp
  with k(1) s(2) show ?thesis by simp
qed

lemmas ex_defs = GET_def sweep_def rejected_def ex_env_def ex_req_def ex_block_def ex_other_def
  select_candidates_def expiredBlocks_def activeBlocks_def deactivate_expired_def
  process_block_def dispatch_def log_effect_def due_def timeDiff_def reminderTime_def
  fiveMinutesInMs_def sendReminderEmail_def truthy_def userName_of_def before_at_def
  update_reminder_sent_def result_body_def no_active_body_def Let_def

lemma ex_flaky_sweep:
  "GET ex_env ex_flaky ex_req 600000 [ex_other, ex_block] =
     \<lparr>resp = \<lparr>status = 200,
         body = [(''message'', JString ''Cron job completed''), (''timestamp'', JDate 600000),
                 (''processed'', JNumber 2), (''sent'', JNumber 1), (''errors'', JNumber 1)]\<rparr>,
      table = [ex_other, ex_block\<lparr>reminder_sent := True\<rparr>],
      calls = [ProfileQuery 4 8, SendEmail 4 ''ada@example.org'' ''ada'' False,
               ProfileQuery 1 7, SendEmail 1 ''ada@example.org'' ''ada'' True,
               UpdateReminderSent 1 True]\<rparr>"
  by (simp add: ex_defs ex_flaky_def)

lemma ex_retry_sweep:
  "GET ex_env ex_srv ex_req 600000 [ex_other, ex_block\<lparr>reminder_sent := True\<rparr>] =
     \<lparr>resp = \<lparr>status = 200,
         body = [(''message'', JString ''Cron job completed''), (''timestamp'', JDate 600000),
                 (''processed'', JNumber 1), (''sent'', JNumber 1), (''errors'', JNumber 0)]\<rparr>,
      table = [ex_other\<lparr>reminder_sent := True\<rparr>, ex_block\<lparr>reminder_sent := True\<rparr>],
      calls = [ProfileQuery 4 8, SendEmail 4 ''ada@example.org'' ''ada'' True,
               UpdateReminderSent 4 True]\<rparr>"
  by (simp add: ex_defs ex_srv_def)

lemma ex_unmarked_sweep:
  "GET ex_env ex_unmarked ex_req 600000 [ex_other, ex_block] =
     \<lparr>resp = \<lparr>status = 200,
         body = [(''message'', JString ''Cron job completed''), (''timestamp'', JDate 600000),
                 (''processed'', JNumber 2), (''sent'', JNumber 1), (''errors'', JNumber 1)]\<rparr>,
      table = [ex_other, ex_block\<lparr>reminder_sent := True\<rparr>],
      calls = [ProfileQuery 4 8, SendEmail 4 ''ada@example.org'' ''ada'' True,
               UpdateReminderSent 4 False,
               ProfileQuery 1 7, SendEmail 1 ''ada@example.org'' ''ada'' True,
               UpdateReminderSent 1 True]\<rparr>"
  by (simp add: ex_defs ex_unmarked_def)



section \<open>Properties\<close>

text \<open>
  C6. When reading the candidates fails, the invocation (once authorized) answers
  with status 500 and the error payload, leaves the table as it was and has made no call:
  neither an expiry update nor a dispatch.
\<close>

theorem fetch_failure_aborts:
  assumes "fetchError srv" and "\<not> rejected penv req"
  shows "GET penv srv req now rows =
     \<lparr>resp = \<lparr>status = 500, body = [(''error'', JString ''Failed to fetch quiet blocks'')]\<rparr>,
      table = rows, calls = []\<rparr>"
  using assms by (simp add: GET_def sweep_def)

theorem fetch_failure_aborts_witness:
  "fetchError (ex_srv\<lparr>fetchError := True\<rparr>) \<and> \<not> rejected ex_env ex_req
   \<and> GET ex_env (ex_srv\<lparr>fetchError := True\<rparr>) ex_req 600000 [ex_block] =
     \<lparr>resp = \<lparr>status = 500, body = [(''error'', JString ''Failed to fetch quiet blocks'')]\<rparr>,
      table = [ex_block], calls = []\<rparr>"
proof -
  have h1: "fetchError (ex_srv\<lparr>fetchError := True\<rparr>)" by simp
  have h2: "\<not> rejected ex_env ex_req" by (simp add: rejected_def ex_env_def ex_req_def)
  from fetch_failure_aborts [OF h1 h2, of 600000 "[ex_block]"] h1 h2 show ?thesis by simp
qed

text \<open>
  C10. The endpoint answers 401 exactly when a non-empty secret is configured, the
  authorization header is not \<open>Bearer\<close> followed by that secret, the deployment is
  production and the user agent is not that of a known scheduling service; a rejected
  request leaves the table as it was and makes no call; every other request is answered by
  the sweep; and \<open>POST\<close> is \<open>GET\<close>.
\<close>

theorem authorization_gate:
  "(status (resp (GET penv srv req now rows)) = 401 \<longleftrightarrow>
      (\<exists>secret. CRON_SECRET penv = Some secret \<and> secret \<noteq> []
         \<and> authorization req \<noteq> Some (''Bearer '' @ secret))
      \<and> NODE_ENV penv = Some ''production'' \<and> \<not> isKnownCronService (user_agent req))
   \<and> (status (resp (GET penv srv req now rows)) = 401 \<longrightarrow>
        table (GET penv srv req now rows) = rows \<and> calls (GET penv srv req now rows) = [])
   \<and> (status (resp (GET penv srv req now rows)) \<noteq> 401 \<longrightarrow>
        GET penv srv req now rows = sweep penv srv now rows)
   \<and> POST penv srv req now rows = GET penv srv req now rows"
proof -
  have rej: "rejected penv req \<longleftrightarrow>
      (\<exists>secret. CRON_SECRET penv = Some secret \<and> secret \<noteq> []
         \<and> authorization req \<noteq> Some (''Bearer '' @ secret))
      \<and> NODE_ENV penv = Some ''production'' \<and> \<not> isKnownCronService (user_agent req)"
    by (cases "CRON_SECRET penv") (simp_all add: rejected_def)
  have st: "status (resp (GET penv srv req now rows)) = 401 \<longleftrightarrow> rejected penv req"
    by (simp add: GET_def status_sweep)
  show ?thesis
    unfolding st rej [symmetric]
    by (simp add: GET_def POST_def)
qed

theorem authorization_gate_witness:
  "status (resp (GET ex_env ex_srv \<lparr>authorization = None, user_agent = Some ''curl/8''\<rparr> 600000 [ex_block])) = 401
   \<and> table (GET ex_env ex_srv \<lparr>authorization = None, user_agent = Some ''curl/8''\<rparr> 600000 [ex_block]) = [ex_block]
   \<and> calls (GET ex_env ex_srv \<lparr>authorization = None, user_agent = Some ''curl/8''\<rparr> 600000 [ex_block]) = []
   \<and> status (resp (GET ex_env ex_srv ex_req 600000 [ex_block])) \<noteq> 401
   \<and> GET ex_env ex_srv ex_req 600000 [ex_block] = sweep ex_env ex_srv 600000 [ex_block]
   \<and> GET ex_env ex_srv \<lparr>authorization = None, user_agent = Some ''Mozilla (cron-job.org)''\<rparr> 600000 [ex_block]
       = sweep ex_env ex_srv 600000 [ex_block]"
  using authorization_gate [of ex_env ex_srv "\<lparr>authorization = None, user_agent = Some ''curl/8''\<rparr>" 600000 "[ex_block]"]
    authorization_gate [of ex_env ex_srv ex_req 600000 "[ex_block]"]
    authorization_gate [of ex_env ex_srv "\<lparr>authorization = None, user_agent = Some ''Mozilla (cron-job.org)''\<rparr>" 600000 "[ex_block]"]
  by (simp add: ex_env_def ex_req_def isKnownCronService_def)



text \<open>
  C2, as amended. In a sweep at the instant \<open>now\<close> (authorized, candidates read, ids
  unique), a candidate block with \<open>end < now\<close> is in the expired partition and, unless the
  bulk update reports an error, is inactive afterwards; a candidate block with
  \<open>end \<ge> now\<close> is not in the expired partition and is still active afterwards; and a
  block that is inactive after the sweep is inactive after any further invocations.
\<close>

theorem expiry_reconciliation:
  assumes "\<not> rejected penv req" and "\<not> fetchError srv"
    and "distinct (map block_id rows)"
    and "k < length rows" and "is_active (rows ! k)" and "\<not> reminder_sent (rows ! k)"
  shows "(end_time (rows ! k) < now \<longrightarrow>
            rows ! k \<in> set (expiredBlocks now (select_candidates rows))
            \<and> (\<not> expireUpdateError srv \<longrightarrow> \<not> is_active (table (GET penv srv req now rows) ! k)))
       \<and> (now \<le> end_time (rows ! k) \<longrightarrow>
            rows ! k \<notin> set (expiredBlocks now (select_candidates rows))
            \<and> is_active (table (GET penv srv req now rows) ! k))
       \<and> (\<not> is_active (table (GET penv srv req now rows) ! k) \<longrightarrow>
            \<not> is_active (fst (triggers vs (table (GET penv srv req now rows))) ! k))"
proof -
  have mem: "rows ! k \<in> set rows" using assms(4) by simp
  have expired: "end_time (rows ! k) < now \<Longrightarrow>
      rows ! k \<in> set (expiredBlocks now (select_candidates rows))"
    using mem assms(5,6) by (simp add: in_expiredBlocks)
  have gone: "end_time (rows ! k) < now \<Longrightarrow> \<not> expireUpdateError srv \<Longrightarrow>
      \<not> is_active (table (GET penv srv req now rows) ! k)"
    using expired assms(1,2,4) by (simp add: table_GET_nth deactivated_ids_def)
  have live: "rows ! k \<notin> set (expiredBlocks now (select_candidates rows))"
    if "now \<le> end_time (rows ! k)"
    using that by (simp add: in_expiredBlocks)
  have not_hit: "block_id (rows ! k) \<notin> deactivated_ids srv now rows"
    if le: "now \<le> end_time (rows ! k)"
  proof
    assume "block_id (rows ! k) \<in> deactivated_ids srv now rows"
    then obtain b' where b': "b' \<in> set (expiredBlocks now (select_candidates rows))"
        "block_id b' = block_id (rows ! k)"
      by (auto simp: deactivated_ids_def split: if_splits)
    from b'(1) have "b' \<in> set rows" and "end_time b' < now"
      by (simp_all add: in_expiredBlocks)
    with assms(3) mem b'(2) have "end_time (rows ! k) < now"
      using same_id_same_row by blast
    with le show False by simp
  qed
  have stays: "now \<le> end_time (rows ! k) \<Longrightarrow> is_active (table (GET penv srv req now rows) ! k)"
    using not_hit assms(1,2,4,5) by (simp add: table_GET_nth)
  have later: "\<not> is_active (table (GET penv srv req now rows) ! k) \<Longrightarrow>
      \<not> is_active (fst (triggers vs (table (GET penv srv req now rows))) ! k)"
    using assms(4) by (simp add: triggers_inactive length_table_GET)
  from expired gone live stays later show ?thesis by blast
qed

text \<open>
  C2 as stated fails. A candidate block whose end is exactly \<open>now\<close> is not in the expired
  partition and is still active after the sweep; and a block with \<open>end < now\<close> is still
  active after a sweep whose bulk update reports an error.
\<close>

theorem expiry_at_end_counterexample:
  "is_active ex_ended \<and> \<not> reminder_sent ex_ended
   \<and> end_time ex_ended \<le> 600000
   \<and> ex_ended \<notin> set (expiredBlocks 600000 (select_candidates [ex_ended]))
   \<and> is_active (table (GET ex_env ex_srv ex_req 600000 [ex_ended]) ! 0)
   \<and> end_time ex_ended \<le> 600001
   \<and> is_active (table (GET ex_env (ex_srv\<lparr>expireUpdateError := True\<rparr>) ex_req 600001 [ex_ended]) ! 0)"
  by (simp add: GET_def sweep_def rejected_def ex_env_def ex_req_def ex_srv_def ex_ended_def
      select_candidates_def expiredBlocks_def activeBlocks_def deactivate_expired_def
      update_inactive_def Let_def)

theorem expiry_reconciliation_witness:
  "\<not> rejected ex_env ex_req \<and> \<not> fetchError ex_srv \<and> distinct (map block_id [ex_ended])
   \<and> (0::nat) < length [ex_ended] \<and> is_active ([ex_ended] ! 0) \<and> \<not> reminder_sent ([ex_ended] ! 0)
   \<and> end_time ([ex_ended] ! 0) < 600001 \<and> \<not> expireUpdateError ex_srv
   \<and> [ex_ended] ! 0 \<in> set (expiredBlocks 600001 (select_candidates [ex_ended]))
   \<and> \<not> is_active (table (GET ex_env ex_srv ex_req 600001 [ex_ended]) ! 0)
   \<and> \<not> is_active (fst (triggers
          [\<lparr>inv_env = ex_env, inv_srv = ex_srv, inv_req = ex_req, inv_now = 600002\<rparr>]
          (table (GET ex_env ex_srv ex_req 600001 [ex_ended]))) ! 0)
   \<and> 600000 \<le> end_time ([ex_ended] ! 0)
   \<and> [ex_ended] ! 0 \<notin> set (expiredBlocks 600000 (select_candidates [ex_ended]))
   \<and> is_active (table (GET ex_env ex_srv ex_req 600000 [ex_ended]) ! 0)"
proof -
  have h1: "\<not> rejected ex_env ex_req" by (simp add: rejected_def ex_env_def ex_req_def)
  have h2: "\<not> fetchError ex_srv" by (simp add: ex_srv_def)
  have h3: "distinct (map block_id [ex_ended])" by simp
  have h4: "(0::nat) < length [ex_ended]" by simp
  have h5: "is_active ([ex_ended] ! 0)" and h6: "\<not> reminder_sent ([ex_ended] ! 0)"
    by (simp_all add: ex_ended_def)
  have t: "end_time ex_ended = 600000" by (simp add: ex_ended_def)
  have u: "\<not> expireUpdateError ex_srv" by (simp add: ex_srv_def)
  from expiry_reconciliation [OF h1 h2 h3 h4 h5 h6, of 600001
      "[\<lparr>inv_env = ex_env, inv_srv = ex_srv, inv_req = ex_req, inv_now = 600002\<rparr>]"]
    expiry_reconciliation [OF h1 h2 h3 h4 h5 h6, of 600000 "[]"]
    h1 h2 h5 h6 u
  show ?thesis by (simp add: t)
qed

text \<open>
  C3. The overlap check decides on the instants that \<open>new Date\<close> reads from the two fields
  in the browser's zone, while the row is stored with the offset +05:30. In a browser in
  the zone +05:30 a request that starts at the start of an active block of its owner is
  rejected. In a browser in UTC the same request is admitted: the row inserted has the
  owner, the start and a part of the interval of that active block. And in either browser a
  request whose end has a year of five digits is read as an Invalid Date, every comparison
  with it is false, and the request is admitted whatever it overlaps.
\<close>

theorem overlap_guard_admits_overlap:
  "handleSubmit ex_client
       \<lparr>form_title = ex_title, startTime = Some 21000000, endTime = Some 21600000\<rparr> [ex_block]
     = Inl Overlaps
   \<and> handleSubmit ex_utc_client
       \<lparr>form_title = ex_title, startTime = Some 21000000, endTime = Some 21600000\<rparr> [ex_block]
     = Inr [ex_block, insertData 3 7 ex_title 21000000 21600000]
   \<and> user_id (insertData 3 7 ex_title 21000000 21600000) = user_id ex_block
   \<and> is_active ex_block \<and> is_active (insertData 3 7 ex_title 21000000 21600000)
   \<and> start_time (insertData 3 7 ex_title 21000000 21600000)
        < end_time (insertData 3 7 ex_title 21000000 21600000)
   \<and> start_time (insertData 3 7 ex_title 21000000 21600000) = start_time ex_block
   \<and> start_time (insertData 3 7 ex_title 21000000 21600000) < end_time ex_block
   \<and> end_time (insertData 3 7 ex_title 21000000 21600000) > start_time ex_block
   \<and> parseLocal ex_client 253402300800000 = None
   \<and> handleSubmit ex_client
       \<lparr>form_title = ex_title, startTime = Some 21000000, endTime = Some 253402300800000\<rparr>
       [ex_block]
     = Inr [ex_block, insertData 3 7 ex_title 21000000 253402300800000]
   \<and> start_time (insertData 3 7 ex_title 21000000 253402300800000) = start_time ex_block
   \<and> start_time (insertData 3 7 ex_title 21000000 253402300800000) < end_time ex_block
   \<and> end_time (insertData 3 7 ex_title 21000000 253402300800000) > start_time ex_block"
  by (simp add: handleSubmit_def ex_client_def ex_utc_client_def ex_block_def ex_title_def
      existingBlocks_def trim_def is_space_def date_ge_def date_lt_def date_gt_def
      insertData_def formatISTForStorage_def)

text \<open>
  C4. In every invocation, an update of \<open>reminder_sent\<close> for a block is issued only after a
  call of the email transport for that block that returned, that call was made for a row of
  the table for which \<open>sendReminderEmail\<close> returns, and a flag that the invocation turned
  from false to true was turned by such an update that succeeded. A created block has
  \<open>reminder_sent\<close> false. No sequence of invocations turns a flag that is true back to
  false. With unique ids, over any sequence of invocations the successful update of
  \<open>reminder_sent\<close> is issued at most once for an id.
\<close>

theorem reminder_sent_transitions:
  "(\<forall>pre i ok post. calls (GET penv srv req now rows) = pre @ UpdateReminderSent i ok # post \<longrightarrow>
       (\<exists>e n. SendEmail i e n True \<in> set pre))
   \<and> (\<forall>i e n. SendEmail i e n True \<in> set (calls (GET penv srv req now rows)) \<longrightarrow>
       (\<exists>b \<in> set rows. block_id b = i \<and> sendReminderEmail penv srv e n b))
   \<and> (\<forall>k < length rows. \<not> reminder_sent (rows ! k)
          \<and> reminder_sent (table (GET penv srv req now rows) ! k) \<longrightarrow>
       UpdateReminderSent (block_id (rows ! k)) True \<in> set (calls (GET penv srv req now rows)))
   \<and> (\<forall>rows'. handleSubmit cl f rows = Inr rows' \<longrightarrow>
       (\<exists>b. rows' = rows @ [b] \<and> \<not> reminder_sent b))
   \<and> (\<forall>k < length rows. reminder_sent (rows ! k) \<longrightarrow> reminder_sent (fst (triggers vs rows) ! k))
   \<and> (distinct (map block_id rows) \<longrightarrow>
       count_list (snd (triggers vs rows)) (UpdateReminderSent j True) \<le> 1)"
proof -
  have a: "\<forall>pre i ok post. calls (GET penv srv req now rows) = pre @ UpdateReminderSent i ok # post \<longrightarrow>
       (\<exists>e n. SendEmail i e n True \<in> set pre)"
    using sends_first_GET [of penv srv req now rows] unfolding sends_first_def .
  have b: "\<forall>i e n. SendEmail i e n True \<in> set (calls (GET penv srv req now rows)) \<longrightarrow>
       (\<exists>b \<in> set rows. block_id b = i \<and> sendReminderEmail penv srv e n b)"
    by (auto simp: SendEmail_calls_GET in_activeBlocks)
  have c: "\<forall>k < length rows. \<not> reminder_sent (rows ! k)
          \<and> reminder_sent (table (GET penv srv req now rows) ! k) \<longrightarrow>
       UpdateReminderSent (block_id (rows ! k)) True \<in> set (calls (GET penv srv req now rows))"
    by (auto simp: reminder_sent_GET_iff)
  have d: "\<forall>rows'. handleSubmit cl f rows = Inr rows' \<longrightarrow>
       (\<exists>b. rows' = rows @ [b] \<and> \<not> reminder_sent b)"
    using handleSubmit_inserts by blast
  have e: "\<forall>k < length rows. reminder_sent (rows ! k) \<longrightarrow> reminder_sent (fst (triggers vs rows) ! k)"
    by (simp add: triggers_reminder_sent)
  have f: "distinct (map block_id rows) \<longrightarrow>
       count_list (snd (triggers vs rows)) (UpdateReminderSent j True) \<le> 1"
    using count_triggers by blast
  from a b c d e f show ?thesis by blast
qed

theorem reminder_sent_transitions_witness:
  "calls (GET ex_env ex_srv ex_req 600000 [ex_block]) =
     [ProfileQuery 1 7, SendEmail 1 ''ada@example.org'' ''ada'' True] @ UpdateReminderSent 1 True # []
   \<and> (\<exists>e n. SendEmail 1 e n True \<in> set [ProfileQuery 1 7, SendEmail 1 ''ada@example.org'' ''ada'' True])
   \<and> SendEmail 1 ''ada@example.org'' ''ada'' True \<in> set (calls (GET ex_env ex_srv ex_req 600000 [ex_block]))
   \<and> (\<exists>b \<in> set [ex_block]. block_id b = 1
        \<and> sendReminderEmail ex_env ex_srv ''ada@example.org'' ''ada'' b)
   \<and> (0::nat) < length [ex_block] \<and> \<not> reminder_sent ([ex_block] ! 0)
   \<and> reminder_sent (table (GET ex_env ex_srv ex_req 600000 [ex_block]) ! 0)
   \<and> UpdateReminderSent (block_id ([ex_block] ! 0)) True
        \<in> set (calls (GET ex_env ex_srv ex_req 600000 [ex_block]))
   \<and> handleSubmit ex_client
        \<lparr>form_title = ex_title, startTime = Some 24600000, endTime = Some 28200000\<rparr> [ex_block]
       = Inr ([ex_block] @ [insertData 3 7 ex_title 24600000 28200000])
   \<and> (\<exists>b. [ex_block] @ [insertData 3 7 ex_title 24600000 28200000] = [ex_block] @ [b]
        \<and> \<not> reminder_sent b)
   \<and> reminder_sent ([ex_block\<lparr>reminder_sent := True\<rparr>] ! 0)
   \<and> reminder_sent (fst (triggers
        [\<lparr>inv_env = ex_env, inv_srv = ex_srv, inv_req = ex_req, inv_now = 600000\<rparr>]
        [ex_block\<lparr>reminder_sent := True\<rparr>]) ! 0)
   \<and> distinct (map block_id [ex_block])
   \<and> count_list (snd (triggers
        [\<lparr>inv_env = ex_env, inv_srv = ex_srv, inv_req = ex_req, inv_now = 600000\<rparr>,
         \<lparr>inv_env = ex_env, inv_srv = ex_srv, inv_req = ex_req, inv_now = 600001\<rparr>]
        [ex_block])) (UpdateReminderSent 1 True) \<le> 1"
proof -
  have sub: "handleSubmit ex_client
        \<lparr>form_title = ex_title, startTime = Some 24600000, endTime = Some 28200000\<rparr> [ex_block]
       = Inr ([ex_block] @ [insertData 3 7 ex_title 24600000 28200000])"
    by (simp add: handleSubmit_def ex_client_def ex_block_def ex_title_def existingBlocks_def
        trim_def is_space_def date_ge_def date_lt_def date_gt_def)
  have cs: "calls (GET ex_env ex_srv ex_req 600000 [ex_block]) =
     [ProfileQuery 1 7, SendEmail 1 ''ada@example.org'' ''ada'' True] @ UpdateReminderSent 1 True # []"
    by (simp add: ex_sweep)
  have tb: "table (GET ex_env ex_srv ex_req 600000 [ex_block]) = [ex_block\<lparr>reminder_sent := True\<rparr>]"
    by (simp add: ex_sweep)
  have ns: "\<not> reminder_sent ex_block" "block_id ex_block = 1" by (simp_all add: ex_block_def)
  note t = reminder_sent_transitions [of ex_env ex_srv ex_req 600000 "[ex_block]" ex_client
      "\<lparr>form_title = ex_title, startTime = Some 24600000, endTime = Some 28200000\<rparr>"
      "[\<lparr>inv_env = ex_env, inv_srv = ex_srv, inv_req = ex_req, inv_now = 600000\<rparr>,
        \<lparr>inv_env = ex_env, inv_srv = ex_srv, inv_req = ex_req, inv_now = 600001\<rparr>]" 1]
  note t' = reminder_sent_transitions [of ex_env ex_srv ex_req 600000
      "[ex_block\<lparr>reminder_sent := True\<rparr>]" ex_client
      "\<lparr>form_title = ex_title, startTime = Some 24600000, endTime = Some 28200000\<rparr>"
      "[\<lparr>inv_env = ex_env, inv_srv = ex_srv, inv_req = ex_req, inv_now = 600000\<rparr>]" 1]
  from t have t1: "\<exists>e n. SendEmail 1 e n True \<in> set [ProfileQuery 1 7, SendEmail 1 ''ada@example.org'' ''ada'' True]"
    using cs by blast
  from t have t2: "\<exists>b \<in> set [ex_block]. block_id b = 1
        \<and> sendReminderEmail ex_env ex_srv ''ada@example.org'' ''ada'' b"
    using cs by simp
  from t have t3: "UpdateReminderSent (block_id ([ex_block] ! 0)) True
        \<in> set (calls (GET ex_env ex_srv ex_req 600000 [ex_block]))"
    using tb ns by simp
  from t sub have t4: "\<exists>b. [ex_block] @ [insertData 3 7 ex_title 24600000 28200000] = [ex_block] @ [b]
        \<and> \<not> reminder_sent b"
    by blast
  from t' have t5: "reminder_sent (fst (triggers
        [\<lparr>inv_env = ex_env, inv_srv = ex_srv, inv_req = ex_req, inv_now = 600000\<rparr>]
        [ex_block\<lparr>reminder_sent := True\<rparr>]) ! 0)"
    by simp
  from t have t6: "count_list (snd (triggers
        [\<lparr>inv_env = ex_env, inv_srv = ex_srv, inv_req = ex_req, inv_now = 600000\<rparr>,
         \<lparr>inv_env = ex_env, inv_srv = ex_srv, inv_req = ex_req, inv_now = 600001\<rparr>]
        [ex_block])) (UpdateReminderSent 1 True) \<le> 1"
    by simp
  from cs tb ns sub t1 t2 t3 t4 t5 t6 show ?thesis by simp
qed

text \<open>
  C5, as amended. When a first sweep issued the successful update of \<open>reminder_sent\<close> for a
  block, every row of that id has the flag set afterwards, and a second invocation on the
  resulting table at the same instant makes no profile query and no email call for that
  block. And when the first invocation ran its sweep, every block for which the second
  one, at the same instant, calls the email transport is a block that the first sweep
  selected as due too and did not mark: a block whose contact did not resolve, or whose
  email call threw, or whose email was delivered but whose update of \<open>reminder_sent\<close>
  failed.
\<close>

theorem no_second_dispatch:
  assumes "res1 = GET penv srv req now rows"
    and "res2 = GET penv2 srv2 req2 now (table res1)"
  shows "(UpdateReminderSent i True \<in> set (calls res1) \<longrightarrow>
            (\<forall>r \<in> set (table res1). block_id r = i \<longrightarrow> reminder_sent r)
            \<and> (\<forall>u. ProfileQuery i u \<notin> set (calls res2))
            \<and> (\<forall>e n ok. SendEmail i e n ok \<notin> set (calls res2)))
       \<and> (\<not> rejected penv req \<and> \<not> fetchError srv \<longrightarrow>
            (\<forall>j e n ok. SendEmail j e n ok \<in> set (calls res2) \<longrightarrow>
               (\<exists>b \<in> set rows. block_id b = j \<and> due now b
                  \<and> ProfileQuery j (user_id b) \<in> set (calls res1)
                  \<and> UpdateReminderSent j True \<notin> set (calls res1)
                  \<and> (contact srv b = None
                     \<or> (\<exists>e' n'. contact srv b = Some (e', n')
                           \<and> \<not> sendReminderEmail penv srv e' n' b)
                     \<or> (delivered penv srv b \<and> markUpdateError srv (block_id b))))))"
proof -
  have first: "(\<forall>r \<in> set (table res1). block_id r = i \<longrightarrow> reminder_sent r)
            \<and> (\<forall>u. ProfileQuery i u \<notin> set (calls res2))
            \<and> (\<forall>e n ok. SendEmail i e n ok \<notin> set (calls res2))"
    if upd: "UpdateReminderSent i True \<in> set (calls res1)"
  proof -
    have all: "\<forall>r \<in> set (table res1). block_id r = i \<longrightarrow> reminder_sent r"
      using upd all_sent_after_update unfolding assms(1) by blast
    from no_calls_when_sent(1,2) [OF all] all show ?thesis
      unfolding assms(2) by blast
  qed
  have second: "\<exists>b \<in> set rows. block_id b = j \<and> due now b
                  \<and> ProfileQuery j (user_id b) \<in> set (calls res1)
                  \<and> UpdateReminderSent j True \<notin> set (calls res1)
                  \<and> (contact srv b = None
                     \<or> (\<exists>e' n'. contact srv b = Some (e', n')
                           \<and> \<not> sendReminderEmail penv srv e' n' b)
                     \<or> (delivered penv srv b \<and> markUpdateError srv (block_id b)))"
    if ran: "\<not> rejected penv req" "\<not> fetchError srv"
      and se: "SendEmail j e n ok \<in> set (calls res2)" for j e n ok
  proof -
    from se obtain b' where b': "b' \<in> set (activeBlocks now (select_candidates (table res1)))"
        "j = block_id b'" "due now b'"
      unfolding assms(2) by (auto simp: SendEmail_calls_GET)
    from b'(1) have c: "b' \<in> set (table res1)" "is_active b'" "\<not> reminder_sent b'"
        "now < start_time b'" "now \<le> end_time b'"
      by (simp_all add: in_activeBlocks)
    from candidate_after [OF ran c(1) [unfolded assms(1)] c(2,3)]
    have mem: "b' \<in> set rows"
      and ns: "j \<notin> sent_ids penv srv now (activeBlocks now (select_candidates rows))"
      using b'(2) by simp_all
    from mem c have act: "b' \<in> set (activeBlocks now (select_candidates rows))"
      by (simp add: in_activeBlocks)
    with b'(2,3) ran have pq: "ProfileQuery j (user_id b') \<in> set (calls res1)"
      unfolding assms(1) by (auto simp: ProfileQuery_calls_GET)
    from ns act b'(2,3) have nm: "\<not> marked penv srv b'" by (auto simp: in_sent_ids)
    have why: "contact srv b' = None
        \<or> (\<exists>e' n'. contact srv b' = Some (e', n') \<and> \<not> sendReminderEmail penv srv e' n' b')
        \<or> (delivered penv srv b' \<and> markUpdateError srv (block_id b'))"
    proof (cases "delivered penv srv b'")
      case True
      with nm show ?thesis by (simp add: marked_def)
    next
      case False
      then show ?thesis unfolding not_delivered_iff by blast
    qed
    from ns have nu: "UpdateReminderSent j True \<notin> set (calls res1)"
      unfolding assms(1) by (simp add: marked_iff_update)
    from mem b'(2,3) pq nu why show ?thesis by blast
  qed
  from first second show ?thesis by blast
qed

text \<open>
  C5 as stated fails. A block whose email the first sweep delivered, but whose update of
  \<open>reminder_sent\<close> failed, is emailed again by a second sweep at the same instant: the
  blocks retried are not only those whose previous dispatch failed.
\<close>

theorem delivered_block_retried_counterexample:
  "sendReminderEmail ex_env ex_unmarked ''ada@example.org'' ''ada'' ex_other
   \<and> SendEmail 4 ''ada@example.org'' ''ada'' True
        \<in> set (calls (GET ex_env ex_unmarked ex_req 600000 [ex_other, ex_block]))
   \<and> SendEmail 4 ''ada@example.org'' ''ada'' True
        \<in> set (calls (GET ex_env ex_srv ex_req 600000
             (table (GET ex_env ex_unmarked ex_req 600000 [ex_other, ex_block]))))"
  by (simp add: ex_unmarked_sweep ex_retry_sweep)
    (simp add: sendReminderEmail_def ex_unmarked_def ex_env_def truthy_def)

theorem no_second_dispatch_witness:
  "UpdateReminderSent 1 True \<in> set (calls (GET ex_env ex_flaky ex_req 600000 [ex_other, ex_block]))
   \<and> ProfileQuery 1 7 \<notin> set (calls (GET ex_env ex_srv ex_req 600000
        (table (GET ex_env ex_flaky ex_req 600000 [ex_other, ex_block]))))
   \<and> SendEmail 1 ''ada@example.org'' ''ada'' True \<notin> set (calls (GET ex_env ex_srv ex_req 600000
        (table (GET ex_env ex_flaky ex_req 600000 [ex_other, ex_block]))))
   \<and> \<not> rejected ex_env ex_req \<and> \<not> fetchError ex_flaky
   \<and> SendEmail 4 ''ada@example.org'' ''ada'' True \<in> set (calls (GET ex_env ex_srv ex_req 600000
        (table (GET ex_env ex_flaky ex_req 600000 [ex_other, ex_block]))))
   \<and> ProfileQuery 4 8 \<in> set (calls (GET ex_env ex_flaky ex_req 600000 [ex_other, ex_block]))
   \<and> UpdateReminderSent 4 True \<notin> set (calls (GET ex_env ex_flaky ex_req 600000 [ex_other, ex_block]))
   \<and> contact ex_flaky ex_other = Some (''ada@example.org'', ''ada'')
   \<and> \<not> sendReminderEmail ex_env ex_flaky ''ada@example.org'' ''ada'' ex_other
   \<and> \<not> fetchError ex_unmarked
   \<and> SendEmail 4 ''ada@example.org'' ''ada'' True \<in> set (calls (GET ex_env ex_srv ex_req 600000
        (table (GET ex_env ex_unmarked ex_req 600000 [ex_other, ex_block]))))
   \<and> ProfileQuery 4 8 \<in> set (calls (GET ex_env ex_unmarked ex_req 600000 [ex_other, ex_block]))
   \<and> UpdateReminderSent 4 True \<notin> set (calls (GET ex_env ex_unmarked ex_req 600000 [ex_other, ex_block]))
   \<and> delivered ex_env ex_unmarked ex_other \<and> markUpdateError ex_unmarked (block_id ex_other)"
proof -
  note t = no_second_dispatch [OF refl refl, of 1 ex_env ex_flaky ex_req 600000
      "[ex_other, ex_block]" ex_env ex_srv ex_req]
  note t2 = no_second_dispatch [OF refl refl, of 1 ex_env ex_unmarked ex_req 600000
      "[ex_other, ex_block]" ex_env ex_srv ex_req]
  have u: "UpdateReminderSent 1 True \<in> set (calls (GET ex_env ex_flaky ex_req 600000 [ex_other, ex_block]))"
    by (simp add: ex_flaky_sweep)
  have h: "\<not> rejected ex_env ex_req" "\<not> fetchError ex_flaky" "\<not> fetchError ex_unmarked"
    by (simp_all add: rejected_def ex_env_def ex_req_def ex_flaky_def ex_unmarked_def)
  have se: "SendEmail 4 ''ada@example.org'' ''ada'' True \<in> set (calls (GET ex_env ex_srv ex_req 600000
        (table (GET ex_env ex_flaky ex_req 600000 [ex_other, ex_block]))))"
    by (simp add: ex_flaky_sweep ex_retry_sweep)
  have se2: "SendEmail 4 ''ada@example.org'' ''ada'' True \<in> set (calls (GET ex_env ex_srv ex_req 600000
        (table (GET ex_env ex_unmarked ex_req 600000 [ex_other, ex_block]))))"
    by (simp add: ex_unmarked_sweep ex_retry_sweep)
  have ids: "block_id ex_other = 4" "user_id ex_other = 8" "block_id ex_block = 1"
    by (simp_all add: ex_other_def ex_block_def)
  from t u have a: "ProfileQuery 1 7 \<notin> set (calls (GET ex_env ex_srv ex_req 600000
        (table (GET ex_env ex_flaky ex_req 600000 [ex_other, ex_block]))))"
    and b: "SendEmail 1 ''ada@example.org'' ''ada'' True \<notin> set (calls (GET ex_env ex_srv ex_req 600000
        (table (GET ex_env ex_flaky ex_req 600000 [ex_other, ex_block]))))"
    by blast+
  from t h(1,2) se have "\<exists>b \<in> set [ex_other, ex_block]. block_id b = 4
      \<and> ProfileQuery 4 (user_id b) \<in> set (calls (GET ex_env ex_flaky ex_req 600000 [ex_other, ex_block]))
      \<and> UpdateReminderSent 4 True \<notin> set (calls (GET ex_env ex_flaky ex_req 600000 [ex_other, ex_block]))"
    by blast
  then have c: "ProfileQuery 4 8 \<in> set (calls (GET ex_env ex_flaky ex_req 600000 [ex_other, ex_block]))"
    and d: "UpdateReminderSent 4 True \<notin> set (calls (GET ex_env ex_flaky ex_req 600000 [ex_other, ex_block]))"
    by (auto simp: ids)
  from t2 h(1,3) se2 have "\<exists>b \<in> set [ex_other, ex_block]. block_id b = 4
      \<and> ProfileQuery 4 (user_id b) \<in> set (calls (GET ex_env ex_unmarked ex_req 600000 [ex_other, ex_block]))
      \<and> UpdateReminderSent 4 True \<notin> set (calls (GET ex_env ex_unmarked ex_req 600000 [ex_other, ex_block]))"
    by blast
  then have c2: "ProfileQuery 4 8 \<in> set (calls (GET ex_env ex_unmarked ex_req 600000 [ex_other, ex_block]))"
    and d2: "UpdateReminderSent 4 True \<notin> set (calls (GET ex_env ex_unmarked ex_req 600000 [ex_other, ex_block]))"
    by (auto simp: ids)
  have co: "contact ex_flaky ex_other = Some (''ada@example.org'', ''ada'')"
    by (simp add: contact_def ex_flaky_def userName_of_def before_at_def)
  have ns: "\<not> sendReminderEmail ex_env ex_flaky ''ada@example.org'' ''ada'' ex_other"
    by (simp add: sendReminderEmail_def ex_flaky_def ex_other_def ex_env_def truthy_def)
  have dl: "delivered ex_env ex_unmarked ex_other"
    by (simp add: delivered_def contact_def ex_unmarked_def userName_of_def before_at_def
        sendReminderEmail_def ex_env_def truthy_def)
  have mu: "markUpdateError ex_unmarked (block_id ex_other)"
    by (simp add: ex_unmarked_def ex_other_def)
  from u a b h se c d co ns se2 c2 d2 dl mu show ?thesis by blast
qed

text \<open>
  C7. In a sweep (authorized, candidates read, ids unique), a due candidate block whose
  profile query reports an error or returns no profile, whose profile has no email, or
  whose email call throws keeps \<open>reminder_sent\<close> false, and no update of \<open>reminder_sent\<close> is
  issued for it. The sweep goes on: it answers with status 200, makes the profile query for
  every due candidate block, and a due candidate whose reminder is delivered and marked
  has \<open>reminder_sent\<close> true afterwards.
\<close>

theorem failed_dispatch_skipped:
  assumes "\<not> rejected penv req" and "\<not> fetchError srv"
    and "distinct (map block_id rows)"
    and "k < length rows" and "is_active (rows ! k)" and "\<not> reminder_sent (rows ! k)"
    and "now \<le> end_time (rows ! k)" and "due now (rows ! k)"
    and "fst (profiles srv (user_id (rows ! k)))
       \<or> snd (profiles srv (user_id (rows ! k))) = None
       \<or> (\<exists>p. snd (profiles srv (user_id (rows ! k))) = Some p \<and> \<not> truthy (email p))
       \<or> (\<exists>e n. contact srv (rows ! k) = Some (e, n) \<and> \<not> sendReminderEmail penv srv e n (rows ! k))"
  shows "\<not> reminder_sent (table (GET penv srv req now rows) ! k)
       \<and> (\<forall>ok. UpdateReminderSent (block_id (rows ! k)) ok \<notin> set (calls (GET penv srv req now rows)))
       \<and> status (resp (GET penv srv req now rows)) = 200
       \<and> (\<forall>j < length rows. is_active (rows ! j) \<and> \<not> reminder_sent (rows ! j)
             \<and> now \<le> end_time (rows ! j) \<and> due now (rows ! j) \<longrightarrow>
            ProfileQuery (block_id (rows ! j)) (user_id (rows ! j))
              \<in> set (calls (GET penv srv req now rows))
            \<and> (marked penv srv (rows ! j) \<longrightarrow> reminder_sent (table (GET penv srv req now rows) ! j)))"
proof -
  from assms(9) have nd: "\<not> delivered penv srv (rows ! k)"
    unfolding not_delivered_iff contact_None_iff by blast
  then have nm: "\<not> marked penv srv (rows ! k)" by (simp add: marked_def)
  have a: "\<not> reminder_sent (table (GET penv srv req now rows) ! k)"
    using assms(1,2,4,6) not_sent [OF assms(3,4) nm] by (simp add: table_GET_nth)
  have b: "UpdateReminderSent (block_id (rows ! k)) ok \<notin> set (calls (GET penv srv req now rows))" for ok
  proof
    assume "UpdateReminderSent (block_id (rows ! k)) ok \<in> set (calls (GET penv srv req now rows))"
    then obtain b' where b': "b' \<in> set (activeBlocks now (select_candidates rows))"
        "block_id (rows ! k) = block_id b'" "delivered penv srv b'"
      by (auto simp: UpdateReminderSent_calls_GET)
    from b'(1) have "b' \<in> set rows" by (simp add: in_activeBlocks)
    moreover have "rows ! k \<in> set rows" using assms(4) by simp
    ultimately have "b' = rows ! k" using assms(3) b'(2) same_id_same_row by metis
    with b'(3) nd show False by simp
  qed
  have c: "status (resp (GET penv srv req now rows)) = 200"
    using assms(1,2) by (simp add: GET_sweep status_sweep)
  have d: "ProfileQuery (block_id (rows ! j)) (user_id (rows ! j))
              \<in> set (calls (GET penv srv req now rows))
            \<and> (marked penv srv (rows ! j) \<longrightarrow> reminder_sent (table (GET penv srv req now rows) ! j))"
    if j: "j < length rows" "is_active (rows ! j)" "\<not> reminder_sent (rows ! j)"
      "now \<le> end_time (rows ! j)" "due now (rows ! j)" for j
  proof -
    have act: "rows ! j \<in> set (activeBlocks now (select_candidates rows))"
      using j by (rule row_in_activeBlocks)
    with j(5) assms(1,2) have pq: "ProfileQuery (block_id (rows ! j)) (user_id (rows ! j))
              \<in> set (calls (GET penv srv req now rows))"
      by (auto simp: ProfileQuery_calls_GET)
    have "reminder_sent (table (GET penv srv req now rows) ! j)" if "marked penv srv (rows ! j)"
    proof -
      from act j(5) that
      have "block_id (rows ! j) \<in> sent_ids penv srv now (activeBlocks now (select_candidates rows))"
        by (auto simp: in_sent_ids)
      with assms(1,2) j(1) show ?thesis by (simp add: table_GET_nth)
    qed
    with pq show ?thesis by blast
  qed
  from a b c d show ?thesis by blast
qed

theorem failed_dispatch_skipped_witness:
  "\<not> rejected ex_env ex_req \<and> \<not> fetchError ex_flaky
   \<and> distinct (map block_id [ex_other, ex_block])
   \<and> is_active ex_other \<and> \<not> reminder_sent ex_other
   \<and> 600000 \<le> end_time ex_other \<and> due 600000 ex_other
   \<and> contact ex_flaky ex_other = Some (''ada@example.org'', ''ada'')
   \<and> \<not> sendReminderEmail ex_env ex_flaky ''ada@example.org'' ''ada'' ex_other
   \<and> \<not> reminder_sent (table (GET ex_env ex_flaky ex_req 600000 [ex_other, ex_block]) ! 0)
   \<and> UpdateReminderSent 4 True \<notin> set (calls (GET ex_env ex_flaky ex_req 600000 [ex_other, ex_block]))
   \<and> status (resp (GET ex_env ex_flaky ex_req 600000 [ex_other, ex_block])) = 200
   \<and> marked ex_env ex_flaky ex_block
   \<and> ProfileQuery 1 7 \<in> set (calls (GET ex_env ex_flaky ex_req 600000 [ex_other, ex_block]))
   \<and> reminder_sent (table (GET ex_env ex_flaky ex_req 600000 [ex_other, ex_block]) ! 1)"
proof -
  have h1: "\<not> rejected ex_env ex_req" and h2: "\<not> fetchError ex_flaky"
    by (simp_all add: rejected_def ex_env_def ex_req_def ex_flaky_def)
  have h3: "distinct (map block_id [ex_other, ex_block])"
    by (simp add: ex_other_def ex_block_def)
  have h4: "(0::nat) < length [ex_other, ex_block]" by simp
  have o: "is_active ex_other" "\<not> reminder_sent ex_other" "600000 \<le> end_time ex_other"
      "due 600000 ex_other" "block_id ex_other = 4"
    by (simp_all add: ex_other_def due_def timeDiff_def reminderTime_def fiveMinutesInMs_def)
  have co: "contact ex_flaky ex_other = Some (''ada@example.org'', ''ada'')"
    by (simp add: contact_def ex_flaky_def userName_of_def before_at_def)
  have ns: "\<not> sendReminderEmail ex_env ex_flaky ''ada@example.org'' ''ada'' ex_other"
    by (simp add: sendReminderEmail_def ex_flaky_def ex_other_def ex_env_def truthy_def)
  have b: "is_active ex_block" "\<not> reminder_sent ex_block" "600000 \<le> end_time ex_block"
      "due 600000 ex_block" "block_id ex_block = 1" "user_id ex_block = 7"
    by (simp_all add: ex_block_def due_def timeDiff_def reminderTime_def fiveMinutesInMs_def)
  have mk: "marked ex_env ex_flaky ex_block"
    by (simp add: marked_def delivered_def contact_def ex_flaky_def userName_of_def before_at_def
        sendReminderEmail_def ex_block_def ex_env_def truthy_def)
  have fail: "fst (profiles ex_flaky (user_id ([ex_other, ex_block] ! 0)))
       \<or> snd (profiles ex_flaky (user_id ([ex_other, ex_block] ! 0))) = None
       \<or> (\<exists>p. snd (profiles ex_flaky (user_id ([ex_other, ex_block] ! 0))) = Some p \<and> \<not> truthy (email p))
       \<or> (\<exists>e n. contact ex_flaky ([ex_other, ex_block] ! 0) = Some (e, n)
            \<and> \<not> sendReminderEmail ex_env ex_flaky e n ([ex_other, ex_block] ! 0))"
    using co ns by simp
  note t = failed_dispatch_skipped [OF h1 h2 h3 h4 _ _ _ _ fail, of 600000]
  have t': "\<not> reminder_sent (table (GET ex_env ex_flaky ex_req 600000 [ex_other, ex_block]) ! 0)
       \<and> (\<forall>ok. UpdateReminderSent (block_id ([ex_other, ex_block] ! 0)) ok
             \<notin> set (calls (GET ex_env ex_flaky ex_req 600000 [ex_other, ex_block])))
       \<and> status (resp (GET ex_env ex_flaky ex_req 600000 [ex_other, ex_block])) = 200
       \<and> (\<forall>j < length [ex_other, ex_block]. is_active ([ex_other, ex_block] ! j)
             \<and> \<not> reminder_sent ([ex_other, ex_block] ! j)
             \<and> 600000 \<le> end_time ([ex_other, ex_block] ! j) \<and> due 600000 ([ex_other, ex_block] ! j) \<longrightarrow>
            ProfileQuery (block_id ([ex_other, ex_block] ! j)) (user_id ([ex_other, ex_block] ! j))
              \<in> set (calls (GET ex_env ex_flaky ex_req 600000 [ex_other, ex_block]))
            \<and> (marked ex_env ex_flaky ([ex_other, ex_block] ! j) \<longrightarrow>
                 reminder_sent (table (GET ex_env ex_flaky ex_req 600000 [ex_other, ex_block]) ! j)))"
    by (rule t) (simp_all add: o)
  from t' have r0: "\<not> reminder_sent (table (GET ex_env ex_flaky ex_req 600000 [ex_other, ex_block]) ! 0)"
    and r1: "UpdateReminderSent 4 True \<notin> set (calls (GET ex_env ex_flaky ex_req 600000 [ex_other, ex_block]))"
    and r2: "status (resp (GET ex_env ex_flaky ex_req 600000 [ex_other, ex_block])) = 200"
    using o(5) by simp_all
  have one: "(1::nat) < length [ex_other, ex_block]" and nth1: "[ex_other, ex_block] ! 1 = ex_block"
    by simp_all
  from t' one have "is_active ([ex_other, ex_block] ! 1)
             \<and> \<not> reminder_sent ([ex_other, ex_block] ! 1)
             \<and> 600000 \<le> end_time ([ex_other, ex_block] ! 1) \<and> due 600000 ([ex_other, ex_block] ! 1) \<longrightarrow>
            ProfileQuery (block_id ([ex_other, ex_block] ! 1)) (user_id ([ex_other, ex_block] ! 1))
              \<in> set (calls (GET ex_env ex_flaky ex_req 600000 [ex_other, ex_block]))
            \<and> (marked ex_env ex_flaky ([ex_other, ex_block] ! 1) \<longrightarrow>
                 reminder_sent (table (GET ex_env ex_flaky ex_req 600000 [ex_other, ex_block]) ! 1))"
    by blast
  with b mk have r3: "ProfileQuery 1 7 \<in> set (calls (GET ex_env ex_flaky ex_req 600000 [ex_other, ex_block]))"
    and r4: "reminder_sent (table (GET ex_env ex_flaky ex_req 600000 [ex_other, ex_block]) ! 1)"
    unfolding nth1 by simp_all
  from h1 h2 h3 o co ns r0 r1 r2 mk r3 r4 show ?thesis by blast
qed

text \<open>
  C8. In a sweep (authorized, candidates read, ids unique), for a due candidate block
  whose contact resolves and whose email call returns but whose update of \<open>reminder_sent\<close>
  fails: the email call and the failed update are made, the row is left as it was
  (\<open>reminder_sent\<close> false), and the loop body adds one to the error counter and nothing to
  the sent counter. A later invocation (authorized, candidates read) at an instant at
  which the block is still due and not expired, and for which the contact resolves, calls
  the email transport for the block again.
\<close>

theorem mark_failure_resends:
  assumes "\<not> rejected penv req" and "\<not> fetchError srv"
    and "distinct (map block_id rows)"
    and "k < length rows" and "is_active (rows ! k)" and "\<not> reminder_sent (rows ! k)"
    and "now \<le> end_time (rows ! k)" and "due now (rows ! k)"
    and "contact srv (rows ! k) = Some (e, n)"
    and "sendReminderEmail penv srv e n (rows ! k)"
    and "markUpdateError srv (block_id (rows ! k))"
    and "\<not> rejected penv2 req2" and "\<not> fetchError srv2"
    and "now2 \<le> end_time (rows ! k)" and "due now2 (rows ! k)"
    and "contact srv2 (rows ! k) = Some (e2, n2)"
  shows "SendEmail (block_id (rows ! k)) e n True \<in> set (calls (GET penv srv req now rows))
       \<and> UpdateReminderSent (block_id (rows ! k)) False \<in> set (calls (GET penv srv req now rows))
       \<and> table (GET penv srv req now rows) ! k = rows ! k
       \<and> \<not> reminder_sent (table (GET penv srv req now rows) ! k)
       \<and> sentCount (process_block penv srv now (rows ! k) st) = sentCount st
       \<and> errorCount (process_block penv srv now (rows ! k) st) = errorCount st + 1
       \<and> SendEmail (block_id (rows ! k)) e2 n2 (sendReminderEmail penv2 srv2 e2 n2 (rows ! k))
            \<in> set (calls (GET penv2 srv2 req2 now2 (table (GET penv srv req now rows))))"
proof -
  have act: "rows ! k \<in> set (activeBlocks now (select_candidates rows))"
    using assms(4-8) by (rule row_in_activeBlocks)
  have dl: "delivered penv srv (rows ! k)"
    using assms(9,10) by (simp add: delivered_def)
  have nm: "\<not> marked penv srv (rows ! k)"
    using assms(11) by (simp add: marked_def)
  have a: "SendEmail (block_id (rows ! k)) e n True \<in> set (calls (GET penv srv req now rows))"
    using act assms(1,2,8,9,10) by (auto simp: SendEmail_calls_GET)
  have b: "UpdateReminderSent (block_id (rows ! k)) False \<in> set (calls (GET penv srv req now rows))"
    using act assms(1,2,8,11) dl by (auto simp: UpdateReminderSent_calls_GET)
  have c: "table (GET penv srv req now rows) ! k = rows ! k"
    using assms(1,2,4,5,6) not_deactivated [OF assms(3,4,7)] not_sent [OF assms(3,4) nm]
    by (simp add: table_GET_nth)
  have d: "\<not> reminder_sent (table (GET penv srv req now rows) ! k)"
    using c assms(6) by simp
  have f: "sentCount (process_block penv srv now (rows ! k) st) = sentCount st"
    "errorCount (process_block penv srv now (rows ! k) st) = errorCount st + 1"
    using assms(8,9) nm by (simp_all add: process_block_eq)
  have "rows ! k \<in> set (table (GET penv srv req now rows))"
    using c assms(4) nth_mem [of k "table (GET penv srv req now rows)"]
    by (simp add: length_table_GET)
  then have "rows ! k \<in> set (activeBlocks now2 (select_candidates (table (GET penv srv req now rows))))"
    using assms(5,6,14,15) by (simp add: in_activeBlocks due_def)
  then have g: "SendEmail (block_id (rows ! k)) e2 n2 (sendReminderEmail penv2 srv2 e2 n2 (rows ! k))
            \<in> set (calls (GET penv2 srv2 req2 now2 (table (GET penv srv req now rows))))"
    using assms(12,13,15,16) by (auto simp: SendEmail_calls_GET)
  from a b c d f g show ?thesis by blast
qed

theorem mark_failure_resends_witness:
  "\<not> rejected ex_env ex_req \<and> \<not> fetchError ex_unmarked \<and> \<not> fetchError ex_srv
   \<and> distinct (map block_id [ex_other, ex_block])
   \<and> is_active ex_other \<and> \<not> reminder_sent ex_other
   \<and> 600000 \<le> end_time ex_other \<and> due 600000 ex_other
   \<and> contact ex_unmarked ex_other = Some (''ada@example.org'', ''ada'')
   \<and> sendReminderEmail ex_env ex_unmarked ''ada@example.org'' ''ada'' ex_other
   \<and> markUpdateError ex_unmarked (block_id ex_other)
   \<and> 600001 \<le> end_time ex_other \<and> due 600001 ex_other
   \<and> contact ex_srv ex_other = Some (''ada@example.org'', ''ada'')
   \<and> SendEmail 4 ''ada@example.org'' ''ada'' True
        \<in> set (calls (GET ex_env ex_unmarked ex_req 600000 [ex_other, ex_block]))
   \<and> UpdateReminderSent 4 False
        \<in> set (calls (GET ex_env ex_unmarked ex_req 600000 [ex_other, ex_block]))
   \<and> table (GET ex_env ex_unmarked ex_req 600000 [ex_other, ex_block]) ! 0 = ex_other
   \<and> body (resp (GET ex_env ex_unmarked ex_req 600000 [ex_other, ex_block])) =
       [(''message'', JString ''Cron job completed''), (''timestamp'', JDate 600000),
        (''processed'', JNumber 2), (''sent'', JNumber 1), (''errors'', JNumber 1)]
   \<and> SendEmail 4 ''ada@example.org'' ''ada'' True
        \<in> set (calls (GET ex_env ex_srv ex_req 600001
             (table (GET ex_env ex_unmarked ex_req 600000 [ex_other, ex_block]))))"
proof -
  have h1: "\<not> rejected ex_env ex_req" and h2: "\<not> fetchError ex_unmarked"
    and h2': "\<not> fetchError ex_srv"
    by (simp_all add: rejected_def ex_env_def ex_req_def ex_unmarked_def ex_srv_def)
  have h3: "distinct (map block_id [ex_other, ex_block])"
    by (simp add: ex_other_def ex_block_def)
  have h4: "(0::nat) < length [ex_other, ex_block]" by simp
  have nth0: "[ex_other, ex_block] ! 0 = ex_other" by simp
  have o: "is_active ex_other" "\<not> reminder_sent ex_other" "600000 \<le> end_time ex_other"
      "due 600000 ex_other" "600001 \<le> end_time ex_other" "due 600001 ex_other"
    by (simp_all add: ex_other_def due_def timeDiff_def reminderTime_def fiveMinutesInMs_def)
  have id4: "block_id ex_other = 4" by (simp add: ex_other_def)
  have co: "contact ex_unmarked ex_other = Some (''ada@example.org'', ''ada'')"
    and co2: "contact ex_srv ex_other = Some (''ada@example.org'', ''ada'')"
    by (simp_all add: contact_def ex_unmarked_def ex_srv_def userName_of_def before_at_def)
  have sd: "sendReminderEmail ex_env ex_unmarked ''ada@example.org'' ''ada'' ex_other"
    and sd2: "sendReminderEmail ex_env ex_srv ''ada@example.org'' ''ada'' ex_other"
    by (simp_all add: sendReminderEmail_def ex_unmarked_def ex_srv_def ex_env_def truthy_def)
  have mu: "markUpdateError ex_unmarked (block_id ex_other)"
    by (simp add: ex_unmarked_def ex_other_def)
  note t = mark_failure_resends [where rows = "[ex_other, ex_block]" and k = 0,
      unfolded nth0, OF h1 h2 h3 h4 o(1,2,3,4) co sd mu h1 h2' o(5,6) co2]
  have bd: "body (resp (GET ex_env ex_unmarked ex_req 600000 [ex_other, ex_block])) =
       [(''message'', JString ''Cron job completed''), (''timestamp'', JDate 600000),
        (''processed'', JNumber 2), (''sent'', JNumber 1), (''errors'', JNumber 1)]"
    by (simp add: ex_unmarked_sweep)
  from t sd2 id4 h1 h2 h2' h3 o co sd mu co2 bd show ?thesis by simp
qed




end
